theory Spec2Isabelle
  imports Complex_Main
begin

section \<open>JavaScript values\<close>

text \<open>
  The handlers of \<^verbatim>\<open>src/server.js\<close> work on JSON request bodies and on the row objects
  the database client returns. Both are JavaScript values. A number is a rational or one
  of the three special values; binary floating-point rounding is not modelled, so
  arithmetic on numbers is exact. An object is the list of its own enumerable properties
  in creation order. Strings are byte strings; letter case is folded for ASCII only.
\<close>

datatype jsnum = Fin rat | NaN | PInf | NInf

datatype jsval =
    JUndefined
  | JNull
  | JBool bool
  | JNum jsnum
  | JStr string
  | JArr "jsval list"
  | JObj "(string \<times> jsval) list"

text \<open>
  What a handler can throw: a \<^verbatim>\<open>TypeError\<close> of the language, an \<^verbatim>\<open>Error\<close>
  made by the code with its message, or the rejection of a statement by the store.
\<close>

datatype js_error = TypeError | Error string | StoreError

abbreviation num :: "rat \<Rightarrow> jsval" where
  "num q \<equiv> JNum (Fin q)"

subsection \<open>Characters and digits\<close>

definition is_digit :: "char \<Rightarrow> bool" where
  "is_digit c = (let n = (of_char c :: nat) in 48 \<le> n \<and> n \<le> 57)"

definition digit_val :: "char \<Rightarrow> nat" where
  "digit_val c = of_char c - 48"

definition digit_char :: "nat \<Rightarrow> char" where
  "digit_char d = ''0123456789'' ! d"

definition is_space :: "char \<Rightarrow> bool" where
  "is_space c = (let n = (of_char c :: nat) in n = 32 \<or> (9 \<le> n \<and> n \<le> 13))"

definition lower_char :: "char \<Rightarrow> char" where
  "lower_char c =
     (case map_of (zip ''ABCDEFGHIJKLMNOPQRSTUVWXYZ'' ''abcdefghijklmnopqrstuvwxyz'') c of
        Some l \<Rightarrow> l
      | None \<Rightarrow> c)"

text \<open>\<^verbatim>\<open>String.prototype.toLowerCase\<close>, on ASCII letters.\<close>

definition toLowerCase :: "string \<Rightarrow> string" where
  "toLowerCase s = map lower_char s"

definition trim_start :: "string \<Rightarrow> string" where
  "trim_start s = dropWhile is_space s"

definition trim :: "string \<Rightarrow> string" where
  "trim s = rev (dropWhile is_space (rev (dropWhile is_space s)))"

subsection \<open>Numbers to strings\<close>

fun show_nat :: "nat \<Rightarrow> string" where
  "show_nat n = (if n < 10 then [digit_char n] else show_nat (n div 10) @ [digit_char (n mod 10)])"

declare show_nat.simps [simp del]

text \<open>
  The digits after the decimal point of a fraction \<open>0 \<le> f < 1\<close>, by long division. The
  first argument bounds the number of digits.
\<close>

fun frac_digits :: "nat \<Rightarrow> rat \<Rightarrow> string" where
  "frac_digits 0 f = []"
| "frac_digits (Suc k) f =
     (if f = 0 then []
      else let d = nat \<lfloor>f * 10\<rfloor> in digit_char d # frac_digits k (f * 10 - of_nat d))"

definition show_pos :: "rat \<Rightarrow> string" where
  "show_pos q = (let n = nat \<lfloor>q\<rfloor>; f = q - of_nat n in
     if f = 0 then show_nat n else show_nat n @ ''.'' @ frac_digits 20 f)"

text \<open>
  \<^verbatim>\<open>Number::toString\<close> in the decimal notation JavaScript uses for magnitudes
  from \<open>10\<^sup>-\<^sup>6\<close> up to \<open>10\<^sup>2\<^sup>1\<close>.
\<close>

fun num_to_string :: "jsnum \<Rightarrow> string" where
  "num_to_string NaN = ''NaN''"
| "num_to_string PInf = ''Infinity''"
| "num_to_string NInf = ''-Infinity''"
| "num_to_string (Fin q) = (if q < 0 then ''-'' @ show_pos (- q) else show_pos q)"

subsection \<open>Strings to numbers\<close>

definition digits_val :: "nat \<Rightarrow> (char \<Rightarrow> nat) \<Rightarrow> string \<Rightarrow> nat" where
  "digits_val base dv s = foldl (\<lambda>a c. base * a + dv c) 0 s"

definition is_hex :: "char \<Rightarrow> bool" where
  "is_hex c = (let n = (of_char c :: nat) in
     (48 \<le> n \<and> n \<le> 57) \<or> (65 \<le> n \<and> n \<le> 70) \<or> (97 \<le> n \<and> n \<le> 102))"

definition hex_val :: "char \<Rightarrow> nat" where
  "hex_val c = (let n = (of_char c :: nat) in
     if n \<le> 57 then n - 48 else if n \<le> 70 then n - 55 else n - 87)"

definition is_octal :: "char \<Rightarrow> bool" where
  "is_octal c = (let n = (of_char c :: nat) in 48 \<le> n \<and> n \<le> 55)"

definition is_binary :: "char \<Rightarrow> bool" where
  "is_binary c = (c = CHR ''0'' \<or> c = CHR ''1'')"

definition radix_literal :: "nat \<Rightarrow> (char \<Rightarrow> bool) \<Rightarrow> (char \<Rightarrow> nat) \<Rightarrow> string \<Rightarrow> jsnum" where
  "radix_literal base ok dv s =
     (if s \<noteq> [] \<and> list_all ok s then Fin (of_nat (digits_val base dv s)) else NaN)"

text \<open>The exponent part of a decimal literal: nothing, or \<^verbatim>\<open>e\<close>, a sign and digits.\<close>

definition exponent :: "string \<Rightarrow> int option" where
  "exponent s =
     (case s of
        [] \<Rightarrow> Some 0
      | c # r \<Rightarrow>
          if c = CHR ''e'' \<or> c = CHR ''E'' then
            (let (neg, ds) = (case r of
                                [] \<Rightarrow> (False, r)
                              | x # r' \<Rightarrow> if x = CHR ''-'' then (True, r')
                                          else if x = CHR ''+'' then (False, r') else (False, r))
             in if ds \<noteq> [] \<and> list_all is_digit ds
                then Some ((if neg then - 1 else 1) * int (digits_val 10 digit_val ds))
                else None)
          else None)"

definition scale10 :: "rat \<Rightarrow> int \<Rightarrow> rat" where
  "scale10 q e = (if 0 \<le> e then q * 10 ^ nat e else q / 10 ^ nat (- e))"

text \<open>An unsigned decimal literal: digits, an optional fraction, an optional exponent.\<close>

definition unsigned_decimal :: "string \<Rightarrow> jsnum" where
  "unsigned_decimal s =
     (let ip = takeWhile is_digit s; r1 = dropWhile is_digit s;
          (fp, r2) = (case r1 of
                        [] \<Rightarrow> ([], r1)
                      | c # r \<Rightarrow> if c = CHR ''.'' then (takeWhile is_digit r, dropWhile is_digit r)
                                 else ([], r1))
      in if ip = [] \<and> fp = [] then NaN
         else (case exponent r2 of
                 None \<Rightarrow> NaN
               | Some e \<Rightarrow>
                   Fin (scale10 (of_nat (digits_val 10 digit_val ip)
                                 + of_nat (digits_val 10 digit_val fp) / 10 ^ length fp) e)))"

definition signed_decimal :: "string \<Rightarrow> jsnum" where
  "signed_decimal s =
     (case s of
        [] \<Rightarrow> NaN
      | c # r \<Rightarrow>
          if c = CHR ''-'' then
            (if r = ''Infinity'' then NInf
             else (case unsigned_decimal r of Fin q \<Rightarrow> Fin (- q) | n \<Rightarrow> n))
          else if c = CHR ''+'' then (if r = ''Infinity'' then PInf else unsigned_decimal r)
          else if s = ''Infinity'' then PInf
          else unsigned_decimal s)"

text \<open>
  \<^verbatim>\<open>StringToNumber\<close>, the conversion unary plus applies to a string: white space is
  trimmed, the empty string is 0, then a hexadecimal, octal or binary literal or a signed
  decimal literal; anything else is \<^verbatim>\<open>NaN\<close>.
\<close>

definition str_to_number :: "string \<Rightarrow> jsnum" where
  "str_to_number s =
     (let t = trim s in
      if t = [] then Fin 0
      else if take 2 t = ''0x'' \<or> take 2 t = ''0X'' then radix_literal 16 is_hex hex_val (drop 2 t)
      else if take 2 t = ''0o'' \<or> take 2 t = ''0O'' then radix_literal 8 is_octal digit_val (drop 2 t)
      else if take 2 t = ''0b'' \<or> take 2 t = ''0B'' then radix_literal 2 is_binary digit_val (drop 2 t)
      else signed_decimal t)"

text \<open>
  \<^verbatim>\<open>parseInt(s, 10)\<close> on a string: leading white space, a sign, then the longest run
  of decimal digits; \<^verbatim>\<open>NaN\<close> when there is no digit.
\<close>

definition parseInt_str :: "string \<Rightarrow> jsnum" where
  "parseInt_str s =
     (let t = trim_start s;
          (neg, r) = (case t of
                        [] \<Rightarrow> (False, t)
                      | c # r' \<Rightarrow> if c = CHR ''-'' then (True, r')
                                  else if c = CHR ''+'' then (False, r') else (False, t));
          ds = takeWhile is_digit r
      in if ds = [] then NaN
         else Fin ((if neg then - 1 else 1) * of_nat (digits_val 10 digit_val ds)))"

subsection \<open>Arithmetic on numbers\<close>

fun num_add :: "jsnum \<Rightarrow> jsnum \<Rightarrow> jsnum" where
  "num_add (Fin a) (Fin b) = Fin (a + b)"
| "num_add NaN _ = NaN"
| "num_add _ NaN = NaN"
| "num_add PInf NInf = NaN"
| "num_add NInf PInf = NaN"
| "num_add PInf _ = PInf"
| "num_add NInf _ = NInf"
| "num_add _ PInf = PInf"
| "num_add _ NInf = NInf"

fun num_neg :: "jsnum \<Rightarrow> jsnum" where
  "num_neg (Fin a) = Fin (- a)"
| "num_neg NaN = NaN"
| "num_neg PInf = NInf"
| "num_neg NInf = PInf"

definition num_sub :: "jsnum \<Rightarrow> jsnum \<Rightarrow> jsnum" where
  "num_sub a b = num_add a (num_neg b)"

definition num_sign :: "jsnum \<Rightarrow> int" where
  "num_sign n = (case n of Fin a \<Rightarrow> sgn \<lfloor>sgn a\<rfloor> | PInf \<Rightarrow> 1 | NInf \<Rightarrow> - 1 | NaN \<Rightarrow> 0)"

definition num_mul :: "jsnum \<Rightarrow> jsnum \<Rightarrow> jsnum" where
  "num_mul a b =
     (case (a, b) of
        (Fin x, Fin y) \<Rightarrow> Fin (x * y)
      | _ \<Rightarrow>
          if a = NaN \<or> b = NaN then NaN
          else (let s = num_sign a * num_sign b
                in if s = 0 then NaN else if 0 < s then PInf else NInf))"

text \<open>The integer part of a rational, rounding towards zero.\<close>

definition trunc :: "rat \<Rightarrow> int" where
  "trunc q = (if 0 \<le> q then \<lfloor>q\<rfloor> else \<lceil>q\<rceil>)"

text \<open>The remainder operator \<^verbatim>\<open>%\<close>: the result has the sign of the dividend.\<close>

fun num_rem :: "jsnum \<Rightarrow> jsnum \<Rightarrow> jsnum" where
  "num_rem (Fin a) (Fin b) = (if b = 0 then NaN else Fin (a - b * of_int (trunc (a / b))))"
| "num_rem (Fin a) PInf = Fin a"
| "num_rem (Fin a) NInf = Fin a"
| "num_rem _ _ = NaN"

subsection \<open>Conversions\<close>

text \<open>Truthiness, as \<^verbatim>\<open>!x\<close>, \<^verbatim>\<open>x || y\<close> and \<^verbatim>\<open>if (x)\<close> read it.\<close>

fun truthy :: "jsval \<Rightarrow> bool" where
  "truthy JUndefined = False"
| "truthy JNull = False"
| "truthy (JBool b) = b"
| "truthy (JNum n) = (n \<noteq> NaN \<and> n \<noteq> Fin 0)"
| "truthy (JStr s) = (s \<noteq> [])"
| "truthy (JArr _) = True"
| "truthy (JObj _) = True"

fun first_error :: "(js_error + 'a) list \<Rightarrow> js_error + 'a list" where
  "first_error [] = Inr []"
| "first_error (Inl e # _) = Inl e"
| "first_error (Inr x # rs) = (case first_error rs of Inl e \<Rightarrow> Inl e | Inr xs \<Rightarrow> Inr (x # xs))"

fun join_comma :: "string list \<Rightarrow> string" where
  "join_comma [] = []"
| "join_comma [s] = s"
| "join_comma (s # t # ss) = s @ '','' @ join_comma (t # ss)"

text \<open>
  \<^verbatim>\<open>ToString\<close>, which a template literal applies to each \<^verbatim>\<open>${...}\<close>. An array is
  joined with commas, \<^verbatim>\<open>null\<close> and \<^verbatim>\<open>undefined\<close> elements giving the empty string.
  A plain object gives \<^verbatim>\<open>[object Object]\<close>, unless an own property hides
  \<^verbatim>\<open>toString\<close>: the objects here come from JSON, no property of theirs is callable, and
  the conversion throws.
\<close>

fun to_string :: "jsval \<Rightarrow> js_error + string" where
  "to_string JUndefined = Inr ''undefined''"
| "to_string JNull = Inr ''null''"
| "to_string (JBool b) = Inr (if b then ''true'' else ''false'')"
| "to_string (JNum n) = Inr (num_to_string n)"
| "to_string (JStr s) = Inr s"
| "to_string (JArr xs) =
     (case first_error (map (\<lambda>x. if x = JUndefined \<or> x = JNull then Inr [] else to_string x) xs) of
        Inl e \<Rightarrow> Inl e
      | Inr ss \<Rightarrow> Inr (join_comma ss))"
| "to_string (JObj kvs) =
     (if ''toString'' \<in> set (map fst kvs) then Inl TypeError else Inr ''[object Object]'')"

text \<open>\<^verbatim>\<open>ToPrimitive\<close>: arrays and objects become their string.\<close>

fun to_primitive :: "jsval \<Rightarrow> js_error + jsval" where
  "to_primitive (JArr xs) = (case to_string (JArr xs) of Inl e \<Rightarrow> Inl e | Inr s \<Rightarrow> Inr (JStr s))"
| "to_primitive (JObj kvs) = (case to_string (JObj kvs) of Inl e \<Rightarrow> Inl e | Inr s \<Rightarrow> Inr (JStr s))"
| "to_primitive v = Inr v"

fun prim_to_number :: "jsval \<Rightarrow> jsnum" where
  "prim_to_number JUndefined = NaN"
| "prim_to_number JNull = Fin 0"
| "prim_to_number (JBool b) = Fin (if b then 1 else 0)"
| "prim_to_number (JNum n) = n"
| "prim_to_number (JStr s) = str_to_number s"
| "prim_to_number _ = NaN"

fun prim_to_string :: "jsval \<Rightarrow> string" where
  "prim_to_string JUndefined = ''undefined''"
| "prim_to_string JNull = ''null''"
| "prim_to_string (JBool b) = (if b then ''true'' else ''false'')"
| "prim_to_string (JNum n) = num_to_string n"
| "prim_to_string (JStr s) = s"
| "prim_to_string _ = []"

text \<open>Unary plus, \<^verbatim>\<open>+x\<close>: the result is always a number.\<close>

definition unary_plus :: "jsval \<Rightarrow> js_error + jsval" where
  "unary_plus v = (case to_primitive v of Inl e \<Rightarrow> Inl e | Inr p \<Rightarrow> Inr (JNum (prim_to_number p)))"

fun is_string :: "jsval \<Rightarrow> bool" where
  "is_string (JStr _) = True"
| "is_string _ = False"

text \<open>
  Binary plus, \<^verbatim>\<open>a + b\<close>: when either operand is a string after \<^verbatim>\<open>ToPrimitive\<close> the
  result is the concatenation of both as strings; otherwise the numeric sum.
\<close>

definition js_add :: "jsval \<Rightarrow> jsval \<Rightarrow> js_error + jsval" where
  "js_add a b =
     (case to_primitive a of
        Inl e \<Rightarrow> Inl e
      | Inr pa \<Rightarrow>
          (case to_primitive b of
             Inl e \<Rightarrow> Inl e
           | Inr pb \<Rightarrow>
               if is_string pa \<or> is_string pb
               then Inr (JStr (prim_to_string pa @ prim_to_string pb))
               else Inr (JNum (num_add (prim_to_number pa) (prim_to_number pb)))))"

text \<open>
  Reading a property, \<^verbatim>\<open>v.k\<close>. On \<^verbatim>\<open>undefined\<close> and \<^verbatim>\<open>null\<close> it throws. The
  handlers read \<^verbatim>\<open>cart\<close>, \<^verbatim>\<open>pizza\<close>, \<^verbatim>\<open>id\<close>, \<^verbatim>\<open>size\<close> and column names, which
  no prototype defines: on an object the result is the own property, on anything else
  \<^verbatim>\<open>undefined\<close>. Where a property list names a property twice the last one counts, as
  in \<^verbatim>\<open>JSON.parse\<close>.
\<close>

definition lookup :: "(string \<times> 'a) list \<Rightarrow> string \<Rightarrow> 'a option" where
  "lookup kvs k = map_of (rev kvs) k"

fun get_prop :: "jsval \<Rightarrow> string \<Rightarrow> js_error + jsval" where
  "get_prop JUndefined k = Inl TypeError"
| "get_prop JNull k = Inl TypeError"
| "get_prop (JObj kvs) k = Inr (case lookup kvs k of Some v \<Rightarrow> v | None \<Rightarrow> JUndefined)"
| "get_prop v k = Inr JUndefined"

text \<open>
  The own enumerable properties \<^verbatim>\<open>Object.assign\<close> copies from a source: those of an
  object, the elements of an array and the characters of a string under their indices,
  nothing for the other values.
\<close>

fun own_props :: "jsval \<Rightarrow> (string \<times> jsval) list" where
  "own_props (JObj kvs) = kvs"
| "own_props (JArr xs) = zip (map show_nat [0..<length xs]) xs"
| "own_props (JStr s) = zip (map show_nat [0..<length s]) (map (\<lambda>c. JStr [c]) s)"
| "own_props _ = []"

text \<open>
  Assigning an own property, \<^verbatim>\<open>obj[k] = v\<close>: an existing property keeps its place, a
  new one goes last.
\<close>

definition set_own :: "(string \<times> jsval) list \<Rightarrow> string \<Rightarrow> jsval \<Rightarrow> (string \<times> jsval) list" where
  "set_own kvs k v =
     (if k \<in> set (map fst kvs) then map (\<lambda>(k', v'). (k', if k' = k then v else v')) kvs
      else kvs @ [(k, v)])"

text \<open>\<^verbatim>\<open>Object.assign(target, source)\<close>; the order of index-like names is not modelled.\<close>

definition object_assign :: "(string \<times> jsval) list \<Rightarrow> jsval \<Rightarrow> (string \<times> jsval) list" where
  "object_assign target source = foldl (\<lambda>t (k, v). set_own t k v) target (own_props source)"

text \<open>\<^verbatim>\<open>xs[i]\<close> on an array: \<^verbatim>\<open>undefined\<close> unless \<open>i\<close> is an index of \<open>xs\<close>.\<close>

definition index_array :: "jsval list \<Rightarrow> jsnum \<Rightarrow> jsval" where
  "index_array xs i =
     (case i of
        Fin q \<Rightarrow> if 0 \<le> q \<and> q = of_int \<lfloor>q\<rfloor> \<and> nat \<lfloor>q\<rfloor> < length xs then xs ! nat \<lfloor>q\<rfloor> else JUndefined
      | _ \<Rightarrow> JUndefined)"

text \<open>\<^verbatim>\<open>parseInt(v, 10)\<close>: the argument is converted to a string first.\<close>

definition parseInt :: "jsval \<Rightarrow> js_error + jsnum" where
  "parseInt v = (case to_string v of Inl e \<Rightarrow> Inl e | Inr s \<Rightarrow> Inr (parseInt_str s))"

section \<open>Cart Normalizer\<close>

text \<open>
  Lines 210 to 225 of \<^verbatim>\<open>createOrder\<close>:
  \<^verbatim>\<open>
  const mergedCart = cart.reduce((acc, item) => {
      const id = item.pizza.id;
      const size = item.size.toLowerCase();
      if (!id || !size) { throw new Error("Invalid item data"); }
      const pizzaId = `${id}_${size}`;
      if (!acc[pizzaId]) { acc[pizzaId] = { pizzaId, quantity: 1 }; }
      else { acc[pizzaId].quantity += 1; }
      return acc;
  }, {});
  \<close>
\<close>

text \<open>\<^verbatim>\<open>item.pizza.id\<close>\<close>

definition line_id :: "jsval \<Rightarrow> js_error + jsval" where
  "line_id item = (case get_prop item ''pizza'' of Inl e \<Rightarrow> Inl e | Inr pizza \<Rightarrow> get_prop pizza ''id'')"

text \<open>
  \<^verbatim>\<open>item.size.toLowerCase()\<close>: only a string has the method; on anything else the call
  throws.
\<close>

definition line_size :: "jsval \<Rightarrow> js_error + string" where
  "line_size item =
     (case get_prop item ''size'' of
        Inl e \<Rightarrow> Inl e
      | Inr (JStr s) \<Rightarrow> Inr (toLowerCase s)
      | Inr _ \<Rightarrow> Inl TypeError)"

text \<open>The key \<^verbatim>\<open>pizzaId\<close> of a line, or what the callback throws before computing it.\<close>

definition item_key :: "jsval \<Rightarrow> js_error + string" where
  "item_key item =
     (case line_id item of
        Inl e \<Rightarrow> Inl e
      | Inr id' \<Rightarrow>
          (case line_size item of
             Inl e \<Rightarrow> Inl e
           | Inr size' \<Rightarrow>
               if \<not> truthy id' \<or> \<not> truthy (JStr size') then Inl (Error ''Invalid item data'')
               else (case to_string id' of Inl e \<Rightarrow> Inl e | Inr s \<Rightarrow> Inr (s @ ''_'' @ size'))))"

text \<open>An entry of the accumulator: \<^verbatim>\<open>{ pizzaId, quantity }\<close>.\<close>

record cart_entry =
  pizzaId :: string
  quantity :: nat

text \<open>
  The accumulator starts as \<^verbatim>\<open>{}\<close>, an ordinary object, so \<^verbatim>\<open>acc[pizzaId]\<close> also
  finds what \<^verbatim>\<open>Object.prototype\<close> defines. These are the names it defines.
\<close>

definition object_prototype_names :: "string list" where
  "object_prototype_names =
     [''constructor'', ''hasOwnProperty'', ''isPrototypeOf'', ''propertyIsEnumerable'',
      ''toLocaleString'', ''toString'', ''valueOf'', ''__proto__'', ''__defineGetter__'',
      ''__defineSetter__'', ''__lookupGetter__'', ''__lookupSetter__'']"

fun increment :: "(string \<times> cart_entry) list \<Rightarrow> string \<Rightarrow> (string \<times> cart_entry) list" where
  "increment [] k = []"
| "increment ((k', e) # acc) k =
     (if k' = k then (k', e\<lparr>quantity := quantity e + 1\<rparr>) # acc else (k', e) # increment acc k)"

text \<open>
  The two branches on \<^verbatim>\<open>acc[pizzaId]\<close>. An own entry is an object, hence truthy, and its
  quantity grows. An inherited value (a function, or the prototype itself) is truthy
  too: \<^verbatim>\<open>quantity += 1\<close> then writes to that inherited object and the accumulator gets no
  entry. Otherwise a new entry is appended.
\<close>

definition add_line :: "(string \<times> cart_entry) list \<Rightarrow> string \<Rightarrow> (string \<times> cart_entry) list" where
  "add_line acc k =
     (if k \<in> set (map fst acc) then increment acc k
      else if k \<in> set object_prototype_names then acc
      else acc @ [(k, \<lparr>pizzaId = k, quantity = 1\<rparr>)])"

fun reduce_cart :: "(string \<times> cart_entry) list \<Rightarrow> jsval list \<Rightarrow> js_error + (string \<times> cart_entry) list" where
  "reduce_cart acc [] = Inr acc"
| "reduce_cart acc (item # items) =
     (case item_key item of Inl e \<Rightarrow> Inl e | Inr k \<Rightarrow> reduce_cart (add_line acc k) items)"

definition mergedCart :: "jsval list \<Rightarrow> js_error + (string \<times> cart_entry) list" where
  "mergedCart cart = reduce_cart [] cart"

text \<open>
  \<^verbatim>\<open>Object.values(mergedCart)\<close>: every key contains an underscore, so none is an array
  index and the values come in insertion order.
\<close>

definition object_values :: "(string \<times> cart_entry) list \<Rightarrow> cart_entry list" where
  "object_values acc = map snd acc"

section \<open>The relational store\<close>

text \<open>
  Modelled from the spec: the database behind \<^verbatim>\<open>db.execute\<close> is a remote service
  reached through a client library; neither is part of the repository. Section 6 of the
  specification asks of it parameterized statements, explicit
  \<^verbatim>\<open>BEGIN\<close>/\<^verbatim>\<open>COMMIT\<close>/\<^verbatim>\<open>ROLLBACK\<close> and a generated identifier on insert,
  and names the four tables. The model keeps the committed tables, the working copy of an
  open transaction, the statements received so far, and the positions in that sequence at
  which the store rejects a statement (so that any failure can be simulated).
\<close>

record order_row =
  o_order_id :: nat
  o_date :: string
  o_time :: string

record detail_row =
  d_order_id :: jsval
  d_pizza_id :: string
  d_quantity :: nat

record pizza_row =
  p_pizza_id :: string
  p_pizza_type_id :: string
  p_size :: string
  p_price :: rat

record pizza_type_row =
  t_pizza_type_id :: string
  t_name :: string
  t_category :: string
  t_ingredients :: string

record tables =
  orders :: "order_row list"
  order_details :: "detail_row list"

text \<open>The statements the handlers send, with their bound parameters.\<close>

datatype stmt =
    Begin
  | Commit
  | Rollback
  | InsertOrder string string
  | InsertDetail jsval string nat
  | SelectPizzaTypes
  | SelectSizes jsval
  | SelectOrder jsval
  | SelectOrderItems jsval
  | SelectPastOrders jsnum

text \<open>
  What \<^verbatim>\<open>db.execute\<close> resolves to, as the handlers read it: the rows, and after an
  insert the generated identifier in \<^verbatim>\<open>lastID\<close>.
\<close>

record result_set =
  rows :: "jsval list"
  lastID :: jsval

record store =
  committed :: tables
  pending :: "tables option"
  pizza_types :: "pizza_type_row list"
  pizzas :: "pizza_row list"
  received :: "stmt list"
  faults :: "nat list"

definition current :: "store \<Rightarrow> tables" where
  "current st = (case pending st of Some t \<Rightarrow> t | None \<Rightarrow> committed st)"

text \<open>A write goes to the open transaction, or straight to the committed tables when none is open.\<close>

definition write_tables :: "(tables \<Rightarrow> tables) \<Rightarrow> store \<Rightarrow> store" where
  "write_tables f st =
     (case pending st of
        Some t \<Rightarrow> st\<lparr>pending := Some (f t)\<rparr>
      | None \<Rightarrow> st\<lparr>committed := f (committed st)\<rparr>)"

definition fresh_id :: "order_row list \<Rightarrow> nat" where
  "fresh_id os = Suc (foldr max (map o_order_id os) 0)"

text \<open>
  Equality of a bound parameter and a stored value: numbers with numbers, text with
  text, and text that reads as a number with that number.
\<close>

fun sql_eq :: "jsval \<Rightarrow> jsval \<Rightarrow> bool" where
  "sql_eq (JNum (Fin a)) (JNum (Fin b)) = (a = b)"
| "sql_eq (JStr s) (JStr t) = (s = t)"
| "sql_eq (JStr s) (JNum (Fin b)) = (str_to_number s = Fin b)"
| "sql_eq (JNum (Fin a)) (JStr t) = (Fin a = str_to_number t)"
| "sql_eq _ _ = False"

definition rows_only :: "jsval list \<Rightarrow> result_set" where
  "rows_only rs = \<lparr>rows = rs, lastID = JUndefined\<rparr>"

definition order_json :: "order_row \<Rightarrow> jsval" where
  "order_json r =
     JObj [(''order_id'', num (of_nat (o_order_id r))), (''date'', JStr (o_date r)),
           (''time'', JStr (o_time r))]"

definition pizza_type_json :: "pizza_type_row \<Rightarrow> jsval" where
  "pizza_type_json t =
     JObj [(''id'', JStr (t_pizza_type_id t)), (''name'', JStr (t_name t)),
           (''category'', JStr (t_category t)), (''description'', JStr (t_ingredients t))]"

definition size_json :: "pizza_row \<Rightarrow> jsval" where
  "size_json p = JObj [(''size'', JStr (p_size p)), (''price'', num (p_price p))]"

definition order_item_json :: "detail_row \<Rightarrow> pizza_row \<Rightarrow> pizza_type_row \<Rightarrow> jsval" where
  "order_item_json d p t =
     JObj [(''pizzaTypeId'', JStr (t_pizza_type_id t)), (''name'', JStr (t_name t)),
           (''category'', JStr (t_category t)), (''description'', JStr (t_ingredients t)),
           (''quantity'', num (of_nat (d_quantity d))), (''price'', num (p_price p)),
           (''total'', num (of_nat (d_quantity d) * p_price p)), (''size'', JStr (p_size p))]"

text \<open>
  The join of lines 150 to 163 and 277 to 290: the detail rows of the order, each with
  the price row of its \<^verbatim>\<open>pizza_id\<close> and the type row of that price row.
\<close>

definition order_items :: "store \<Rightarrow> jsval \<Rightarrow> jsval list" where
  "order_items st oid =
     [order_item_json d p t.
        d \<leftarrow> order_details (current st), sql_eq oid (d_order_id d),
        p \<leftarrow> pizzas st, p_pizza_id p = d_pizza_id d,
        t \<leftarrow> pizza_types st, t_pizza_type_id t = p_pizza_type_id p]"

text \<open>
  \<^verbatim>\<open>ORDER BY order_id DESC LIMIT 10 OFFSET ?\<close>, as the statement of line 252 has it. A
  negative offset reads from the start.
\<close>

definition past_orders :: "store \<Rightarrow> rat \<Rightarrow> jsval list" where
  "past_orders st off =
     map order_json (take 10 (drop (nat \<lfloor>off\<rfloor>) (rev (sort_key o_order_id (orders (current st))))))"

fun run :: "stmt \<Rightarrow> store \<Rightarrow> (js_error + result_set) \<times> store" where
  "run Begin st =
     (case pending st of
        Some _ \<Rightarrow> (Inl StoreError, st)
      | None \<Rightarrow> (Inr (rows_only []), st\<lparr>pending := Some (committed st)\<rparr>))"
| "run Commit st =
     (case pending st of
        None \<Rightarrow> (Inl StoreError, st)
      | Some t \<Rightarrow> (Inr (rows_only []), st\<lparr>committed := t, pending := None\<rparr>))"
| "run Rollback st =
     (case pending st of
        None \<Rightarrow> (Inl StoreError, st)
      | Some t \<Rightarrow> (Inr (rows_only []), st\<lparr>pending := None\<rparr>))"
| "run (InsertOrder d t) st =
     (let n = fresh_id (orders (current st))
      in (Inr \<lparr>rows = [], lastID = num (of_nat n)\<rparr>,
          write_tables (\<lambda>tb. tb\<lparr>orders := orders tb @ [\<lparr>o_order_id = n, o_date = d, o_time = t\<rparr>]\<rparr>) st))"
| "run (InsertDetail oid pid q) st =
     (Inr (rows_only []),
      write_tables (\<lambda>tb. tb\<lparr>order_details := order_details tb
                       @ [\<lparr>d_order_id = oid, d_pizza_id = pid, d_quantity = q\<rparr>]\<rparr>) st)"
| "run SelectPizzaTypes st = (Inr (rows_only (map pizza_type_json (pizza_types st))), st)"
| "run (SelectSizes tid) st =
     (Inr (rows_only (map size_json (filter (\<lambda>p. sql_eq tid (JStr (p_pizza_type_id p))) (pizzas st)))), st)"
| "run (SelectOrder oid) st =
     (Inr (rows_only (map order_json
            (filter (\<lambda>r. sql_eq oid (num (of_nat (o_order_id r)))) (orders (current st))))), st)"
| "run (SelectOrderItems oid) st = (Inr (rows_only (order_items st oid)), st)"
| "run (SelectPastOrders off) st =
     (case off of
        Fin q \<Rightarrow> (Inr (rows_only (past_orders st q)), st)
      | _ \<Rightarrow> (Inl StoreError, st))"

text \<open>
  \<^verbatim>\<open>db.execute\<close>: the statement is recorded; it is rejected when its position is one
  of the simulated faults, and otherwise runs.
\<close>

definition execute :: "stmt \<Rightarrow> store \<Rightarrow> (js_error + result_set) \<times> store" where
  "execute s st =
     (let st' = st\<lparr>received := received st @ [s]\<rparr>
      in if length (received st) \<in> set (faults st) then (Inl StoreError, st') else run s st')"

section \<open>Handlers\<close>

text \<open>
  What a handler does with its request: it sends a reply with a status and a JSON body,
  or its promise is rejected and the error goes to the framework.
\<close>

datatype outcome = Reply nat jsval | Threw js_error

definition error_body :: "string \<Rightarrow> jsval" where
  "error_body msg = JObj [(''error'', JStr msg)]"

subsection \<open>Daily Pick Selector: \<^verbatim>\<open>getPizzaOfTheDay\<close>\<close>

text \<open>\<^verbatim>\<open>Math.floor(Date.now() / 86400000)\<close>, for the clock reading \<open>now\<close> in milliseconds.\<close>

definition daysSinceEpoch :: "int \<Rightarrow> jsnum" where
  "daysSinceEpoch now = Fin (of_int \<lfloor>(of_int now :: rat) / 86400000\<rfloor>)"

text \<open>\<^verbatim>\<open>daysSinceEpoch % pizzas.rows.length\<close>\<close>

definition pizzaIndex :: "int \<Rightarrow> jsval list \<Rightarrow> jsnum" where
  "pizzaIndex now rs = num_rem (daysSinceEpoch now) (Fin (of_nat (length rs)))"

text \<open>\<^verbatim>\<open>pizzas.rows[pizzaIndex]\<close>\<close>

definition pick :: "int \<Rightarrow> jsval list \<Rightarrow> jsval" where
  "pick now rs = index_array rs (pizzaIndex now rs)"

text \<open>
  Lines 120 to 123: \<^verbatim>\<open>acc[current.size] = +current.price\<close> for each size row. Assigning
  a number to \<^verbatim>\<open>__proto__\<close> of an ordinary object creates no property.
\<close>

fun sizeObj :: "(string \<times> jsval) list \<Rightarrow> jsval list \<Rightarrow> js_error + (string \<times> jsval) list" where
  "sizeObj acc [] = Inr acc"
| "sizeObj acc (c # cs) =
     (case get_prop c ''size'' of
        Inl e \<Rightarrow> Inl e
      | Inr sz \<Rightarrow>
          (case to_string sz of
             Inl e \<Rightarrow> Inl e
           | Inr k \<Rightarrow>
               (case get_prop c ''price'' of
                  Inl e \<Rightarrow> Inl e
                | Inr pr \<Rightarrow>
                    (case unary_plus pr of
                       Inl e \<Rightarrow> Inl e
                     | Inr v \<Rightarrow> sizeObj (if k = ''__proto__'' then acc else set_own acc k v) cs))))"

text \<open>Lines 125 to 132; every field reads a property of the picked row.\<close>

definition responsePizza :: "jsval \<Rightarrow> (string \<times> jsval) list \<Rightarrow> js_error + jsval" where
  "responsePizza pizza sizes =
     (case get_prop pizza ''id'' of
        Inl e \<Rightarrow> Inl e
      | Inr pid \<Rightarrow>
          (case to_string pid of
             Inl e \<Rightarrow> Inl e
           | Inr s \<Rightarrow>
               Inr (JObj [(''id'', pid),
                          (''name'', case get_prop pizza ''name'' of Inr v \<Rightarrow> v | Inl _ \<Rightarrow> JUndefined),
                          (''category'', case get_prop pizza ''category'' of Inr v \<Rightarrow> v | Inl _ \<Rightarrow> JUndefined),
                          (''description'', case get_prop pizza ''description'' of Inr v \<Rightarrow> v | Inl _ \<Rightarrow> JUndefined),
                          (''image'', JStr (''/public/pizzas/'' @ s @ ''.webp'')),
                          (''sizes'', JObj sizes)])))"

text \<open>
  The handler has no \<^verbatim>\<open>try\<close>: a rejected statement or a thrown error rejects its
  promise. The first thing it reads off the picked row is \<^verbatim>\<open>pizza.id\<close>, as the
  parameter of the second statement.
\<close>

definition getPizzaOfTheDay :: "int \<Rightarrow> store \<Rightarrow> outcome \<times> store" where
  "getPizzaOfTheDay now st =
     (case execute SelectPizzaTypes st of
        (Inl e, s1) \<Rightarrow> (Threw e, s1)
      | (Inr pizzas_res, s1) \<Rightarrow>
          (let pizza = pick now (rows pizzas_res)
           in case get_prop pizza ''id'' of
                Inl e \<Rightarrow> (Threw e, s1)
              | Inr pid \<Rightarrow>
                  (case execute (SelectSizes pid) s1 of
                     (Inl e, s2) \<Rightarrow> (Threw e, s2)
                   | (Inr sizes, s2) \<Rightarrow>
                       (case sizeObj [] (rows sizes) of
                          Inl e \<Rightarrow> (Threw e, s2)
                        | Inr so \<Rightarrow>
                            (case responsePizza pizza so of
                               Inl e \<Rightarrow> (Threw e, s2)
                             | Inr body \<Rightarrow> (Reply 200 body, s2))))))"

subsection \<open>Order Writer: \<^verbatim>\<open>createOrder\<close>\<close>

text \<open>
  Lines 227 to 233: one \<^verbatim>\<open>INSERT INTO order_details\<close> per merged line, awaited in
  turn; the first rejected statement ends the loop.
\<close>

fun insert_details :: "jsval \<Rightarrow> cart_entry list \<Rightarrow> store \<Rightarrow> (js_error + unit) \<times> store" where
  "insert_details orderId [] st = (Inr (), st)"
| "insert_details orderId (item # items) st =
     (case execute (InsertDetail orderId (pizzaId item) (quantity item)) st of
        (Inl e, st') \<Rightarrow> (Inl e, st')
      | (Inr _, st') \<Rightarrow> insert_details orderId items st')"

text \<open>
  The \<^verbatim>\<open>try\<close> block, lines 202 to 237: it ends with the \<^verbatim>\<open>orderId\<close> to send, or
  with the error thrown on the way.
\<close>

definition try_block :: "string \<Rightarrow> string \<Rightarrow> jsval list \<Rightarrow> store \<Rightarrow> (js_error + jsval) \<times> store" where
  "try_block date time cart st =
     (case execute Begin st of
        (Inl e, s1) \<Rightarrow> (Inl e, s1)
      | (Inr _, s1) \<Rightarrow>
          (case execute (InsertOrder date time) s1 of
             (Inl e, s2) \<Rightarrow> (Inl e, s2)
           | (Inr result, s2) \<Rightarrow>
               (let orderId = lastID result
                in case mergedCart cart of
                     Inl e \<Rightarrow> (Inl e, s2)
                   | Inr merged \<Rightarrow>
                       (case insert_details orderId (object_values merged) s2 of
                          (Inl e, s3) \<Rightarrow> (Inl e, s3)
                        | (Inr _, s3) \<Rightarrow>
                            (case execute Commit s3 of
                               (Inl e, s4) \<Rightarrow> (Inl e, s4)
                             | (Inr _, s4) \<Rightarrow> (Inr orderId, s4))))))"

text \<open>
  The handler, lines 188 to 243. \<open>date\<close> and \<open>time\<close> are the two strings made from the
  clock at line 191. Destructuring a missing body throws before anything else. The
  \<^verbatim>\<open>catch\<close> block awaits \<^verbatim>\<open>ROLLBACK\<close> with no guard of its own, so a rejected
  \<^verbatim>\<open>ROLLBACK\<close> rejects the handler.
\<close>

definition createOrder :: "string \<Rightarrow> string \<Rightarrow> jsval \<Rightarrow> store \<Rightarrow> outcome \<times> store" where
  "createOrder date time body st =
     (case get_prop body ''cart'' of
        Inl e \<Rightarrow> (Threw e, st)
      | Inr (JArr cart) \<Rightarrow>
          if length cart = 0 then (Reply 400 (error_body ''Invalid order data''), st)
          else (case try_block date time cart st of
                  (Inr orderId, s) \<Rightarrow> (Reply 200 (JObj [(''orderId'', orderId)]), s)
                | (Inl e, s) \<Rightarrow>
                    (case execute Rollback s of
                       (Inl e', s') \<Rightarrow> (Threw e', s')
                     | (Inr _, s') \<Rightarrow> (Reply 500 (error_body ''Failed to create order''), s')))
      | Inr _ \<Rightarrow> (Reply 400 (error_body ''Invalid order data''), st))"

subsection \<open>Order Reader: \<^verbatim>\<open>getOrders\<close> and \<^verbatim>\<open>getPastOrder\<close>\<close>

text \<open>
  Lines 172 to 178 and, word for word, 294 to 300: each row is copied, with an image
  path added and \<^verbatim>\<open>quantity\<close> and \<^verbatim>\<open>price\<close> replaced by their unary plus. The other
  columns, \<^verbatim>\<open>total\<close> among them, are copied as the store returned them.
\<close>

definition format_item :: "jsval \<Rightarrow> js_error + jsval" where
  "format_item item =
     (case get_prop item ''pizzaTypeId'' of
        Inl e \<Rightarrow> Inl e
      | Inr tid \<Rightarrow>
          (case to_string tid of
             Inl e \<Rightarrow> Inl e
           | Inr s \<Rightarrow>
               (case get_prop item ''quantity'' of
                  Inl e \<Rightarrow> Inl e
                | Inr q \<Rightarrow>
                    (case unary_plus q of
                       Inl e \<Rightarrow> Inl e
                     | Inr q' \<Rightarrow>
                         (case get_prop item ''price'' of
                            Inl e \<Rightarrow> Inl e
                          | Inr p \<Rightarrow>
                              (case unary_plus p of
                                 Inl e \<Rightarrow> Inl e
                               | Inr p' \<Rightarrow>
                                   Inr (JObj (object_assign (object_assign [] item)
                                          (JObj [(''image'', JStr (''/public/pizzas/'' @ s @ ''.webp'')),
                                                 (''quantity'', q'), (''price'', p')])))))))))"

definition formatOrderItems :: "jsval list \<Rightarrow> js_error + jsval list" where
  "formatOrderItems rs = first_error (map format_item rs)"

text \<open>
  Lines 180 and 302 to 305: \<^verbatim>\<open>items.reduce((acc, item) => acc + item.total, 0)\<close>.
\<close>

fun sum_totals :: "jsval \<Rightarrow> jsval list \<Rightarrow> js_error + jsval" where
  "sum_totals acc [] = Inr acc"
| "sum_totals acc (item # items) =
     (case get_prop item ''total'' of
        Inl e \<Rightarrow> Inl e
      | Inr t \<Rightarrow> (case js_add acc t of Inl e \<Rightarrow> Inl e | Inr acc' \<Rightarrow> sum_totals acc' items))"

definition orderTotal :: "jsval list \<Rightarrow> js_error + jsval" where
  "orderTotal items = sum_totals (num 0) items"

text \<open>
  Lines 182 to 185 and 307 to 310: the body of a successful reply, from the header rows
  and the item rows. \<^verbatim>\<open>order.rows[0]\<close> is \<^verbatim>\<open>undefined\<close> when there is no header, and
  \<^verbatim>\<open>Object.assign\<close> then copies nothing.
\<close>

definition order_body :: "jsval list \<Rightarrow> jsval list \<Rightarrow> js_error + jsval" where
  "order_body order_rows item_rows =
     (case formatOrderItems item_rows of
        Inl e \<Rightarrow> Inl e
      | Inr orderItems \<Rightarrow>
          (case orderTotal orderItems of
             Inl e \<Rightarrow> Inl e
           | Inr total' \<Rightarrow>
               Inr (JObj [(''order'', JObj (object_assign [(''total'', total')]
                                              (index_array order_rows (Fin 0)))),
                          (''orderItems'', JArr orderItems)])))"

text \<open>
  The handler of \<^verbatim>\<open>GET /api/order\<close>, lines 143 to 186, which the source names
  \<^verbatim>\<open>getOrders\<close> like the one before it. Both statements are sent before either is
  awaited; there is no \<^verbatim>\<open>try\<close> and no look at the number of header rows.
\<close>

definition getOrders :: "jsval \<Rightarrow> store \<Rightarrow> outcome \<times> store" where
  "getOrders id' st =
     (case execute (SelectOrder id') st of
        (r1, s1) \<Rightarrow>
          (case execute (SelectOrderItems id') s1 of
             (r2, s2) \<Rightarrow>
               (case (r1, r2) of
                  (Inl e, _) \<Rightarrow> (Threw e, s2)
                | (_, Inl e) \<Rightarrow> (Threw e, s2)
                | (Inr order, Inr orderItemsRes) \<Rightarrow>
                    (case order_body (rows order) (rows orderItemsRes) of
                       Inl e \<Rightarrow> (Threw e, s2)
                     | Inr body \<Rightarrow> (Reply 200 body, s2)))))"

text \<open>The handler of \<^verbatim>\<open>GET /api/past-order/:order_id\<close>, lines 262 to 315.\<close>

definition getPastOrder :: "jsval \<Rightarrow> store \<Rightarrow> outcome \<times> store" where
  "getPastOrder orderId st =
     (case execute (SelectOrder orderId) st of
        (Inl e, s1) \<Rightarrow> (Reply 500 (error_body ''Failed to fetch order''), s1)
      | (Inr order, s1) \<Rightarrow>
          if length (rows order) = 0 then (Reply 404 (error_body ''Order not found''), s1)
          else (case execute (SelectOrderItems orderId) s1 of
                  (Inl e, s2) \<Rightarrow> (Reply 500 (error_body ''Failed to fetch order''), s2)
                | (Inr orderItems, s2) \<Rightarrow>
                    (case order_body (rows order) (rows orderItems) of
                       Inl e \<Rightarrow> (Reply 500 (error_body ''Failed to fetch order''), s2)
                     | Inr body \<Rightarrow> (Reply 200 body, s2))))"

subsection \<open>\<^verbatim>\<open>getPastOrders\<close>\<close>

text \<open>
  Lines 248 to 250: \<^verbatim>\<open>parseInt(req.query.page, 10) || 1\<close>, the constant
  \<^verbatim>\<open>limit = 20\<close>, and \<^verbatim>\<open>(page - 1) * limit\<close>.
\<close>

definition limit :: jsnum where
  "limit = Fin 20"

definition page_of :: "jsval \<Rightarrow> js_error + jsnum" where
  "page_of q =
     (case parseInt q of Inl e \<Rightarrow> Inl e | Inr n \<Rightarrow> Inr (if truthy (JNum n) then n else Fin 1))"

definition offset_of :: "jsnum \<Rightarrow> jsnum" where
  "offset_of page = num_mul (num_sub page (Fin 1)) limit"

text \<open>
  The handler, lines 245 to 260, without its five-second delay. \<open>q\<close> is
  \<^verbatim>\<open>req.query.page\<close>. The statement it sends carries the offset only: the row count
  \<^verbatim>\<open>10\<close> is written in the statement (see \<open>past_orders\<close>).
\<close>

definition getPastOrders :: "jsval \<Rightarrow> store \<Rightarrow> outcome \<times> store" where
  "getPastOrders q st =
     (case page_of q of
        Inl e \<Rightarrow> (Reply 500 (error_body ''Failed to fetch past orders''), st)
      | Inr page \<Rightarrow>
          (case execute (SelectPastOrders (offset_of page)) st of
             (Inl e, s1) \<Rightarrow> (Reply 500 (error_body ''Failed to fetch past orders''), s1)
           | (Inr pastOrders, s1) \<Rightarrow> (Reply 200 (JArr (rows pastOrders)), s1)))"

section \<open>Notions used in the statements\<close>

text \<open>The rows a successful request adds: the header and, for a merged line, its detail row.\<close>

definition order_of :: "nat \<Rightarrow> string \<Rightarrow> string \<Rightarrow> order_row" where
  "order_of n d tm = \<lparr>o_order_id = n, o_date = d, o_time = tm\<rparr>"

definition detail_of :: "jsval \<Rightarrow> cart_entry \<Rightarrow> detail_row" where
  "detail_of oid e = \<lparr>d_order_id = oid, d_pizza_id = pizzaId e, d_quantity = quantity e\<rparr>"

text \<open>
  A cart line lacks a pizza identifier or a size when reading \<^verbatim>\<open>item.pizza.id\<close> throws
  or gives \<^verbatim>\<open>undefined\<close> or \<^verbatim>\<open>null\<close>, or when \<^verbatim>\<open>item.size\<close> does.
\<close>

definition lacks_id_or_size :: "jsval \<Rightarrow> bool" where
  "lacks_id_or_size item =
     (line_id item \<in> {Inl TypeError, Inr JUndefined, Inr JNull}
      \<or> get_prop item ''size'' \<in> {Inl TypeError, Inr JUndefined, Inr JNull})"

text \<open>The sum of the quantities in an accumulator.\<close>

definition total_quantity :: "(string \<times> cart_entry) list \<Rightarrow> nat" where
  "total_quantity acc = sum_list (map (\<lambda>(k, e). quantity e) acc)"

section \<open>Example requests and stores\<close>

text \<open>A cart line \<^verbatim>\<open>{ pizza: { id }, size }\<close> and a request body \<^verbatim>\<open>{ cart }\<close>.\<close>

definition cart_line :: "jsval \<Rightarrow> string \<Rightarrow> jsval" where
  "cart_line pid sz = JObj [(''pizza'', JObj [(''id'', pid)]), (''size'', JStr sz)]"

definition request :: "jsval list \<Rightarrow> jsval" where
  "request cart = JObj [(''cart'', JArr cart)]"

text \<open>A store with a menu of two pizza types, no orders, no open transaction and no fault.\<close>

definition example_store :: store where
  "example_store =
     \<lparr>committed = \<lparr>orders = [], order_details = []\<rparr>, pending = None,
      pizza_types =
        [\<lparr>t_pizza_type_id = ''pepperoni'', t_name = ''Pepperoni'', t_category = ''Classic'', t_ingredients = ''Mozzarella, Pepperoni''\<rparr>,
         \<lparr>t_pizza_type_id = ''veggie'', t_name = ''Veggie'', t_category = ''Veggie'', t_ingredients = ''Peppers, Onions''\<rparr>],
      pizzas =
        [\<lparr>p_pizza_id = ''pepperoni_m'', p_pizza_type_id = ''pepperoni'', p_size = ''M'', p_price = 12.5\<rparr>,
         \<lparr>p_pizza_id = ''veggie_l'', p_pizza_type_id = ''veggie'', p_size = ''L'', p_price = 16\<rparr>],
      received = [], faults = []\<rparr>"


text \<open>A line with no pizza identifier, and a line whose key is a name every object inherits.\<close>

definition line_without_id :: jsval where
  "line_without_id = JObj [(''pizza'', JObj []), (''size'', JStr ''M'')]"

definition inherited_line :: jsval where
  "inherited_line = cart_line (JStr ''_'') ''proto__''"

text \<open>The same store with an empty catalog, and with the orders 1 to \<open>n\<close>.\<close>

definition empty_menu :: store where
  "empty_menu = example_store\<lparr>pizza_types := []\<rparr>"

definition numbered_orders :: "nat \<Rightarrow> store" where
  "numbered_orders n =
     example_store\<lparr>committed :=
       \<lparr>orders = map (\<lambda>i. order_of i ''2026-11-02'' ''12:00:00'') [1..<Suc n], order_details = []\<rparr>\<rparr>"



section \<open>The store, statement by statement\<close>

lemma execute_received: "execute s st = (r, st') \<Longrightarrow> received st' = received st @ [s]"
  by (cases s) (auto simp: execute_def Let_def write_tables_def split: if_splits option.splits jsnum.splits)

lemma execute_Begin:
  "execute Begin st = (r, st') \<Longrightarrow>
     committed st' = committed st \<and>
     (case r of Inl e \<Rightarrow> e = StoreError \<and> pending st' = pending st
              | Inr _ \<Rightarrow> pending st = None \<and> pending st' = Some (committed st))"
  by (auto simp: execute_def Let_def split: if_splits option.splits)

lemma execute_Rollback:
  "execute Rollback st = (r, st') \<Longrightarrow>
     committed st' = committed st \<and>
     (case r of Inl e \<Rightarrow> e = StoreError \<and> pending st' = pending st | Inr _ \<Rightarrow> pending st' = None)"
  by (auto simp: execute_def Let_def split: if_splits option.splits)

lemma execute_Commit:
  "execute Commit st = (r, st') \<Longrightarrow> pending st = Some t \<Longrightarrow>
     (case r of Inl e \<Rightarrow> e = StoreError \<and> committed st' = committed st \<and> pending st' = Some t
              | Inr _ \<Rightarrow> committed st' = t \<and> pending st' = None)"
  by (auto simp: execute_def Let_def split: if_splits option.splits)

lemma execute_InsertOrder:
  "execute (InsertOrder d tm) st = (r, st') \<Longrightarrow> pending st = Some t \<Longrightarrow>
     committed st' = committed st \<and>
     (case r of Inl e \<Rightarrow> e = StoreError \<and> pending st' = Some t
              | Inr res \<Rightarrow> lastID res = num (of_nat (fresh_id (orders t))) \<and>
                  pending st' = Some (t\<lparr>orders := orders t @ [\<lparr>o_order_id = fresh_id (orders t), o_date = d, o_time = tm\<rparr>]\<rparr>))"
  by (auto simp: execute_def Let_def write_tables_def current_def split: if_splits option.splits)

lemma execute_InsertDetail:
  "execute (InsertDetail oid pid q) st = (r, st') \<Longrightarrow> pending st = Some t \<Longrightarrow>
     committed st' = committed st \<and>
     (case r of Inl e \<Rightarrow> e = StoreError \<and> pending st' = Some t
              | Inr res \<Rightarrow>
                  pending st' = Some (t\<lparr>order_details := order_details t @ [\<lparr>d_order_id = oid, d_pizza_id = pid, d_quantity = q\<rparr>]\<rparr>))"
  by (auto simp: execute_def Let_def write_tables_def current_def split: if_splits option.splits)

lemma insert_details_tx:
  "insert_details oid es st = (r, st') \<Longrightarrow> pending st = Some t \<Longrightarrow>
     committed st' = committed st \<and> (\<exists>t'. pending st' = Some t') \<and>
     (case r of Inl e \<Rightarrow> e = StoreError
       | Inr _ \<Rightarrow> pending st' = Some (t\<lparr>order_details := order_details t @ map (detail_of oid) es\<rparr>) \<and>
                  received st' = received st @ map (\<lambda>e. InsertDetail oid (pizzaId e) (quantity e)) es)"
proof (induction es arbitrary: st t)
  case Nil
  then show ?case by auto
next
  case (Cons e es)
  obtain r1 s1 where ex: "execute (InsertDetail oid (pizzaId e) (quantity e)) st = (r1, s1)"
    by (cases "execute (InsertDetail oid (pizzaId e) (quantity e)) st")
  note step = execute_InsertDetail [OF ex Cons.prems(2)] execute_received [OF ex]
  show ?case
  proof (cases r1)
    case (Inl err)
    with Cons.prems ex step show ?thesis by auto
  next
    case (Inr res)
    with Cons.prems ex have rest: "insert_details oid es s1 = (r, st')" by simp
    from step Inr have p1: "pending s1 = Some (t\<lparr>order_details := order_details t @ [detail_of oid e]\<rparr>)"
      by (simp add: detail_of_def)
    from Cons.IH [OF rest p1] step show ?thesis
      by (auto split: sum.splits)
  qed
qed

lemma insert_details_received:
  "insert_details oid es st = (r, st') \<Longrightarrow> \<exists>rest. received st' = received st @ rest"
proof (induction es arbitrary: st)
  case Nil
  then show ?case by simp
next
  case (Cons e es)
  obtain r1 s1 where ex: "execute (InsertDetail oid (pizzaId e) (quantity e)) st = (r1, s1)"
    by (cases "execute (InsertDetail oid (pizzaId e) (quantity e)) st")
  show ?case
  proof (cases r1)
    case (Inl err)
    with Cons.prems ex execute_received [OF ex] show ?thesis by auto
  next
    case (Inr res)
    with Cons.prems ex have "insert_details oid es s1 = (r, st')" by simp
    from Cons.IH [OF this] execute_received [OF ex] show ?thesis by auto
  qed
qed

lemma try_block_Inl:
  assumes "try_block d tm cart st = (Inl e, s)"
  shows "committed s = committed st \<and> (\<exists>rest. received s = received st @ Begin # rest)"
proof -
  obtain r1 s1 where e1: "execute Begin st = (r1, s1)" by (cases "execute Begin st")
  note b = execute_Begin [OF e1] execute_received [OF e1]
  show ?thesis
  proof (cases r1)
    case (Inl x)
    with assms e1 b show ?thesis by (simp add: try_block_def)
  next
    case r1: (Inr x1)
    with b have p1: "pending s1 = Some (committed st)" and c1: "committed s1 = committed st" by simp_all
    obtain r2 s2 where e2: "execute (InsertOrder d tm) s1 = (r2, s2)"
      by (cases "execute (InsertOrder d tm) s1")
    note i = execute_InsertOrder [OF e2 p1] execute_received [OF e2]
    show ?thesis
    proof (cases r2)
      case (Inl x)
      with assms e1 r1 e2 b i show ?thesis by (simp add: try_block_def)
    next
      case r2: (Inr res)
      with i obtain t2 where p2: "pending s2 = Some t2" and c2: "committed s2 = committed st"
        using c1 by auto
      show ?thesis
      proof (cases "mergedCart cart")
        case (Inl x)
        with assms e1 r1 e2 r2 b i c2 show ?thesis by (simp add: try_block_def)
      next
        case m: (Inr merged)
        obtain r3 s3 where e3: "insert_details (lastID res) (object_values merged) s2 = (r3, s3)"
          by (cases "insert_details (lastID res) (object_values merged) s2")
        note d = insert_details_tx [OF e3 p2]
        have rc3: "\<exists>rest. received s3 = received st @ Begin # rest"
          using insert_details_received [OF e3] b i by auto
        show ?thesis
        proof (cases r3)
          case (Inl x)
          with assms e1 r1 e2 r2 m e3 d c2 rc3 show ?thesis by (simp add: try_block_def)
        next
          case r3: (Inr u)
          from d obtain t3 where p3: "pending s3 = Some t3" by auto
          obtain r4 s4 where e4: "execute Commit s3 = (r4, s4)" by (cases "execute Commit s3")
          note c = execute_Commit [OF e4 p3] execute_received [OF e4]
          from assms e1 r1 e2 r2 m e3 r3 e4 obtain x where r4: "r4 = Inl x"
            by (cases r4) (auto simp: try_block_def)
          with assms e1 r1 e2 r2 m e3 r3 e4 have "s = s4" by (simp add: try_block_def)
          with c r4 d c2 rc3 show ?thesis by auto
        qed
      qed
    qed
  qed
qed



lemma try_block_Inr:
  assumes "try_block d tm cart st = (Inr oid, s)"
  shows "pending st = None \<and> pending s = None \<and>
         oid = num (of_nat (fresh_id (orders (committed st)))) \<and>
         (\<exists>merged. mergedCart cart = Inr merged \<and>
            orders (committed s) = orders (committed st) @ [order_of (fresh_id (orders (committed st))) d tm] \<and>
            order_details (committed s) = order_details (committed st) @ map (detail_of oid) (object_values merged) \<and>
            received s = received st @ [Begin, InsertOrder d tm]
                 @ map (\<lambda>e. InsertDetail oid (pizzaId e) (quantity e)) (object_values merged) @ [Commit])"
proof -
  obtain r1 s1 where e1: "execute Begin st = (r1, s1)" by (cases "execute Begin st")
  note b = execute_Begin [OF e1] execute_received [OF e1]
  from assms e1 obtain x1 where r1: "r1 = Inr x1"
    by (cases r1) (auto simp: try_block_def)
  with b have p0: "pending st = None" and p1: "pending s1 = Some (committed st)" by simp_all
  obtain r2 s2 where e2: "execute (InsertOrder d tm) s1 = (r2, s2)"
    by (cases "execute (InsertOrder d tm) s1")
  note i = execute_InsertOrder [OF e2 p1] execute_received [OF e2]
  from assms e1 r1 e2 obtain res where r2: "r2 = Inr res"
    by (cases r2) (auto simp: try_block_def)
  let ?n = "fresh_id (orders (committed st))"
  let ?t2 = "(committed st)\<lparr>orders := orders (committed st) @ [order_of ?n d tm]\<rparr>"
  from i r2 have id: "lastID res = num (of_nat ?n)" and p2: "pending s2 = Some ?t2"
    by (simp_all add: order_of_def)
  from assms e1 r1 e2 r2 obtain merged where m: "mergedCart cart = Inr merged"
    by (cases "mergedCart cart") (auto simp: try_block_def)
  obtain r3 s3 where e3: "insert_details (lastID res) (object_values merged) s2 = (r3, s3)"
    by (cases "insert_details (lastID res) (object_values merged) s2")
  note dt = insert_details_tx [OF e3 p2]
  from assms e1 r1 e2 r2 m e3 obtain u where r3: "r3 = Inr u"
    by (cases r3) (auto simp: try_block_def)
  let ?t3 = "?t2\<lparr>order_details := order_details ?t2 @ map (detail_of (lastID res)) (object_values merged)\<rparr>"
  from dt r3 have p3: "pending s3 = Some ?t3"
    and rc3: "received s3 = received s2 @ map (\<lambda>e. InsertDetail (lastID res) (pizzaId e) (quantity e)) (object_values merged)"
    by simp_all
  obtain r4 s4 where e4: "execute Commit s3 = (r4, s4)" by (cases "execute Commit s3")
  note c = execute_Commit [OF e4 p3] execute_received [OF e4]
  from assms e1 r1 e2 r2 m e3 r3 e4 obtain x4 where r4: "r4 = Inr x4"
    by (cases r4) (auto simp: try_block_def)
  with assms e1 r1 e2 r2 m e3 r3 e4 have fin: "s = s4" "oid = lastID res"
    by (simp_all add: try_block_def)
  from c r4 have c4: "committed s4 = ?t3" and p4: "pending s4 = None" by simp_all
  have rc: "received s4 = received st @ [Begin, InsertOrder d tm]
       @ map (\<lambda>e. InsertDetail (lastID res) (pizzaId e) (quantity e)) (object_values merged) @ [Commit]"
    using b i rc3 c by simp
  show ?thesis
    using p0 p4 fin id m c4 rc by simp
qed

section \<open>Order Writer\<close>

lemma createOrder_accepted:
  assumes "get_prop body ''cart'' = Inr (JArr cart)" and "cart \<noteq> []"
    and "createOrder d tm body st = (out, st')"
  shows "(\<exists>oid. try_block d tm cart st = (Inr oid, st') \<and> out = Reply 200 (JObj [(''orderId'', oid)]))
       \<or> (\<exists>e s. try_block d tm cart st = (Inl e, s) \<and> committed st' = committed s \<and>
                 received st' = received s @ [Rollback] \<and>
                 (out = Reply 500 (error_body ''Failed to create order'') \<and> pending st' = None
                  \<or> out = Threw StoreError \<and> pending st' = pending s))"
proof -
  obtain r s where tb: "try_block d tm cart st = (r, s)" by (cases "try_block d tm cart st")
  show ?thesis
  proof (cases r)
    case (Inr oid)
    with assms tb show ?thesis by (simp add: createOrder_def)
  next
    case (Inl e)
    obtain r' s' where rb: "execute Rollback s = (r', s')" by (cases "execute Rollback s")
    note k = execute_Rollback [OF rb] execute_received [OF rb]
    from assms tb Inl rb have "out = (case r' of Inl e' \<Rightarrow> Threw e' | Inr _ \<Rightarrow> Reply 500 (error_body ''Failed to create order''))"
      and "st' = s'"
      by (auto simp: createOrder_def split: sum.splits)
    with k tb Inl show ?thesis by (cases r') auto
  qed
qed






lemma request_cart: "get_prop (request cart) ''cart'' = Inr (JArr cart)"
  by (simp add: request_def lookup_def)





section \<open>Invalid cart lines\<close>

lemma reduce_cart_invalid:
  "l \<in> set cart \<Longrightarrow> item_key l = Inl e \<Longrightarrow> \<exists>e'. reduce_cart acc cart = Inl e'"
  by (induction cart arbitrary: acc) (auto split: sum.splits)

lemma lacks_item_key: "lacks_id_or_size l \<Longrightarrow> \<exists>e. item_key l = Inl e"
  by (auto simp: lacks_id_or_size_def item_key_def line_size_def split: sum.splits jsval.splits)

lemma falsy_item_key:
  "line_id l = Inr (num 0) \<or> line_size l = Inr [] \<Longrightarrow>
     (\<exists>e. item_key l = Inl e) \<and>
     (\<forall>i s. line_id l = Inr i \<and> line_size l = Inr s \<longrightarrow> item_key l = Inl (Error ''Invalid item data''))"
  by (auto simp: item_key_def split: sum.splits)

lemma createOrder_rejected:
  assumes c: "get_prop body ''cart'' = Inr (JArr cart)" and l: "l \<in> set cart" and k: "item_key l = Inl e"
    and co: "createOrder date time body st = (out, st')"
  shows "(out = Reply 500 (error_body ''Failed to create order'') \<or> out = Threw StoreError) \<and>
         committed st' = committed st \<and>
         (\<exists>rest. received st' = received st @ Begin # rest @ [Rollback])"
proof -
  from l have ne: "cart \<noteq> []" by auto
  from reduce_cart_invalid [OF l k] obtain e' where m: "mergedCart cart = Inl e'"
    by (auto simp: mergedCart_def)
  from createOrder_accepted [OF c ne co]
  consider (ok) oid where "try_block date time cart st = (Inr oid, st')"
    | (failed) e s where "try_block date time cart st = (Inl e, s)" "committed st' = committed s"
        "received st' = received s @ [Rollback]"
        "out = Reply 500 (error_body ''Failed to create order'') \<and> pending st' = None
          \<or> out = Threw StoreError \<and> pending st' = pending s"
    by blast
  then show ?thesis
  proof cases
    case ok
    from try_block_Inr [OF ok] m show ?thesis by auto
  next
    case failed
    from try_block_Inl [OF failed(1)] failed(2,3,4) show ?thesis by auto
  qed
qed

lemma createOrder_rejected_no_fault:
  assumes c: "get_prop body ''cart'' = Inr (JArr cart)" and ne: "cart \<noteq> []"
    and m: "mergedCart cart = Inl e" and p: "pending st = None"
    and f: "\<forall>i<3. length (received st) + i \<notin> set (faults st)"
  shows "fst (createOrder date time body st) = Reply 500 (error_body ''Failed to create order'') \<and>
         received (snd (createOrder date time body st)) = received st @ [Begin, InsertOrder date time, Rollback] \<and>
         pending (snd (createOrder date time body st)) = None"
proof -
  from f [rule_format, of 0] f [rule_format, of 1] f [rule_format, of 2]
  have f': "length (received st) \<notin> set (faults st)" "Suc (length (received st)) \<notin> set (faults st)"
    "Suc (Suc (length (received st))) \<notin> set (faults st)" by simp_all
  from ne obtain x xs where cart: "cart = x # xs" by (cases cart) auto
  show ?thesis
    using c m p f' unfolding cart
    by (simp add: createOrder_def try_block_def execute_def Let_def write_tables_def current_def rows_only_def)
qed

lemma lacks_line_without_id: "lacks_id_or_size line_without_id"
  by (simp add: lacks_id_or_size_def line_without_id_def line_id_def lookup_def)

text \<open>
  Claim C3, as amended. The claim says that a cart line lacking a pizza identifier or a
  size is caught before any store interaction, with zero store calls. The code checks the
  lines inside the \<^verbatim>\<open>try\<close> block, after \<^verbatim>\<open>BEGIN\<close> and the header insert. What
  holds: for every request whose cart contains such a line, the store is called, first
  with \<^verbatim>\<open>BEGIN\<close> and last with \<^verbatim>\<open>ROLLBACK\<close>; the reply is 500
  \<^verbatim>\<open>Failed to create order\<close>, not a 400 (or the handler's promise is rejected, when
  the store rejects \<^verbatim>\<open>ROLLBACK\<close>); and the committed tables are unchanged. On a store
  with no open transaction that rejects none of the three statements, these are exactly
  \<^verbatim>\<open>BEGIN\<close>, the header insert and \<^verbatim>\<open>ROLLBACK\<close>.
\<close>

theorem createOrder_invalid_line:
  assumes "get_prop body ''cart'' = Inr (JArr cart)" and "l \<in> set cart" and "lacks_id_or_size l"
    and "createOrder date time body st = (out, st')"
  shows "(out = Reply 500 (error_body ''Failed to create order'') \<or> out = Threw StoreError) \<and>
         committed st' = committed st \<and>
         (\<exists>rest. received st' = received st @ Begin # rest @ [Rollback]) \<and>
         (pending st = None \<and> (\<forall>i<3. length (received st) + i \<notin> set (faults st)) \<longrightarrow>
            out = Reply 500 (error_body ''Failed to create order'') \<and>
            received st' = received st @ [Begin, InsertOrder date time, Rollback] \<and> pending st' = None)"
proof -
  from lacks_item_key [OF assms(3)] obtain e where k: "item_key l = Inl e" by blast
  from reduce_cart_invalid [OF assms(2) k] obtain e' where m: "mergedCart cart = Inl e'"
    by (auto simp: mergedCart_def)
  from assms(2) have ne: "cart \<noteq> []" by auto
  from createOrder_rejected [OF assms(1,2) k assms(4)]
    createOrder_rejected_no_fault [OF assms(1) ne m, of st date time] assms(4)
  show ?thesis by auto
qed

text \<open>The claim as stated fails on a cart whose only line has no pizza identifier: three statements reach the store.\<close>

theorem createOrder_invalid_line_counterexample:
  "lacks_id_or_size line_without_id \<and>
   fst (createOrder ''2026-11-02'' ''12:00:00'' (request [line_without_id]) example_store)
     = Reply 500 (error_body ''Failed to create order'') \<and>
   received (snd (createOrder ''2026-11-02'' ''12:00:00'' (request [line_without_id]) example_store))
     = [Begin, InsertOrder ''2026-11-02'' ''12:00:00'', Rollback] \<and>
   received (snd (createOrder ''2026-11-02'' ''12:00:00'' (request [line_without_id]) example_store))
     \<noteq> received example_store"
proof -
  have "fst (createOrder ''2026-11-02'' ''12:00:00'' (request [line_without_id]) example_store)
     = Reply 500 (error_body ''Failed to create order'')"
    by code_simp
  moreover have "received (snd (createOrder ''2026-11-02'' ''12:00:00'' (request [line_without_id]) example_store))
     = [Begin, InsertOrder ''2026-11-02'' ''12:00:00'', Rollback]"
    by code_simp
  moreover have "received example_store = []" by (simp add: example_store_def)
  ultimately show ?thesis using lacks_line_without_id by simp
qed

theorem createOrder_invalid_line_witness:
  "fst (createOrder ''2026-11-02'' ''12:00:00'' (request [cart_line (JStr ''veggie'') ''L'', line_without_id]) example_store)
     = Reply 500 (error_body ''Failed to create order'') \<and>
   committed (snd (createOrder ''2026-11-02'' ''12:00:00'' (request [cart_line (JStr ''veggie'') ''L'', line_without_id]) example_store))
     = committed example_store \<and>
   received (snd (createOrder ''2026-11-02'' ''12:00:00'' (request [cart_line (JStr ''veggie'') ''L'', line_without_id]) example_store))
     = [Begin, InsertOrder ''2026-11-02'' ''12:00:00'', Rollback]"
proof -
  let ?cart = "[cart_line (JStr ''veggie'') ''L'', line_without_id]"
  let ?r = "createOrder ''2026-11-02'' ''12:00:00'' (request ?cart) example_store"
  have l: "line_without_id \<in> set ?cart" by simp
  have run: "?r = (fst ?r, snd ?r)" by simp
  have st: "pending example_store = None" "received example_store = []" "faults example_store = []"
    by (simp_all add: example_store_def)
  from createOrder_invalid_line [OF request_cart l lacks_line_without_id run] st
  show ?thesis by simp
qed

text \<open>
  A cart that is missing, not an array or empty is the one case rejected before any store
  interaction, with status 400.
\<close>

lemma createOrder_invalid_shape:
  assumes "get_prop body ''cart'' = Inr cart" and "\<forall>xs. cart = JArr xs \<longrightarrow> xs = []"
  shows "createOrder date time body st = (Reply 400 (error_body ''Invalid order data''), st)"
  using assms by (cases cart) (simp_all add: createOrder_def)

text \<open>
  Claim C10. The presence check is \<^verbatim>\<open>!id || !size\<close>. For every cart containing a line
  whose pizza id is the number 0, or whose size lowercases to the empty string, the
  callback throws on that line (\<^verbatim>\<open>Invalid item data\<close> whenever both the id and the
  size can be read), the request fails and the committed tables are unchanged.
\<close>

theorem falsy_id_or_size_rejected:
  assumes "get_prop body ''cart'' = Inr (JArr cart)" and "l \<in> set cart"
    and "line_id l = Inr (num 0) \<or> line_size l = Inr []"
    and "createOrder date time body st = (out, st')"
  shows "(\<exists>e. item_key l = Inl e) \<and>
         (\<forall>i s. line_id l = Inr i \<and> line_size l = Inr s \<longrightarrow> item_key l = Inl (Error ''Invalid item data'')) \<and>
         (out = Reply 500 (error_body ''Failed to create order'') \<or> out = Threw StoreError) \<and>
         committed st' = committed st"
proof -
  note f = falsy_item_key [OF assms(3)]
  then obtain e where k: "item_key l = Inl e" by blast
  from createOrder_rejected [OF assms(1,2) k assms(4)] f show ?thesis by blast
qed

theorem falsy_id_or_size_rejected_witness:
  "item_key (cart_line (num 0) ''M'') = Inl (Error ''Invalid item data'') \<and>
   fst (createOrder ''2026-11-02'' ''12:00:00'' (request [cart_line (num 0) ''M'']) example_store)
     = Reply 500 (error_body ''Failed to create order'') \<and>
   committed (snd (createOrder ''2026-11-02'' ''12:00:00'' (request [cart_line (num 0) ''M'']) example_store))
     = committed example_store"
proof -
  let ?l = "cart_line (num 0) ''M''"
  let ?r = "createOrder ''2026-11-02'' ''12:00:00'' (request [?l]) example_store"
  have l: "?l \<in> set [?l]" by simp
  have z: "line_id ?l = Inr (num 0) \<or> line_size ?l = Inr []"
    by (simp add: cart_line_def line_id_def lookup_def)
  have s: "line_size ?l = Inr ''m''" by code_simp
  have i: "line_id ?l = Inr (num 0)" by (simp add: cart_line_def line_id_def lookup_def)
  have run: "?r = (fst ?r, snd ?r)" by simp
  have out: "fst ?r \<noteq> Threw StoreError" by code_simp
  from falsy_id_or_size_rejected [OF request_cart l z run] s i out
  show ?thesis by simp
qed

section \<open>Cart Normalizer\<close>

lemma increment_total:
  "k \<in> set (map fst acc) \<Longrightarrow> total_quantity (increment acc k) = Suc (total_quantity acc)"
proof (induction acc)
  case Nil
  then show ?case by simp
next
  case (Cons a acc)
  obtain k' e where a: "a = (k', e)" by (cases a)
  show ?case
  proof (cases "k' = k")
    case True
    with a show ?thesis by (simp add: total_quantity_def)
  next
    case False
    with Cons.prems a have "k \<in> set (map fst acc)" by auto
    from Cons.IH [OF this] a False show ?thesis by (simp add: total_quantity_def)
  qed
qed

lemma increment_keys: "map fst (increment acc k) = map fst acc"
  by (induction acc) auto

lemma add_line_total:
  "k \<notin> set object_prototype_names \<Longrightarrow> total_quantity (add_line acc k) = Suc (total_quantity acc)"
  using increment_total [of k acc] by (auto simp: add_line_def total_quantity_def)

lemma add_line_distinct: "distinct (map fst acc) \<Longrightarrow> distinct (map fst (add_line acc k))"
  by (auto simp: add_line_def increment_keys)

lemma increment_pizzaId: "\<forall>(k, e)\<in>set acc. pizzaId e = k \<Longrightarrow> \<forall>(k', e)\<in>set (increment acc k). pizzaId e = k'"
  by (induction acc) (auto split: if_splits)

lemma add_line_pizzaId: "\<forall>(k, e)\<in>set acc. pizzaId e = k \<Longrightarrow> \<forall>(k', e)\<in>set (add_line acc k). pizzaId e = k'"
  using increment_pizzaId [of acc k] by (auto simp: add_line_def)

lemma reduce_cart_total:
  "reduce_cart acc cart = Inr m \<Longrightarrow>
   \<forall>item\<in>set cart. \<forall>k. item_key item = Inr k \<longrightarrow> k \<notin> set object_prototype_names \<Longrightarrow>
   total_quantity m = total_quantity acc + length cart"
proof (induction cart arbitrary: acc)
  case Nil
  then show ?case by simp
next
  case (Cons item cart)
  from Cons.prems(1) obtain k where k: "item_key item = Inr k" and r: "reduce_cart (add_line acc k) cart = Inr m"
    by (auto split: sum.splits)
  from Cons.prems(2) k have "k \<notin> set object_prototype_names" by simp
  from add_line_total [OF this, of acc] Cons.IH [OF r] Cons.prems(2) show ?case by simp
qed

lemma reduce_cart_distinct:
  "reduce_cart acc cart = Inr m \<Longrightarrow> distinct (map fst acc) \<Longrightarrow> distinct (map fst m)"
  by (induction cart arbitrary: acc) (auto split: sum.splits dest: add_line_distinct)

lemma reduce_cart_pizzaId:
  "reduce_cart acc cart = Inr m \<Longrightarrow> \<forall>(k, e)\<in>set acc. pizzaId e = k \<Longrightarrow> \<forall>(k, e)\<in>set m. pizzaId e = k"
proof (induction cart arbitrary: acc)
  case Nil
  then show ?case by simp
next
  case (Cons item cart)
  from Cons.prems(1) obtain k where r: "reduce_cart (add_line acc k) cart = Inr m"
    by (auto split: sum.splits)
  from Cons.IH [OF r add_line_pizzaId [OF Cons.prems(2)]] show ?case .
qed

lemma mergedCart_lines:
  assumes "mergedCart cart = Inr m"
  shows "distinct (map pizzaId (object_values m))"
    and "(\<forall>item\<in>set cart. \<forall>k. item_key item = Inr k \<longrightarrow> k \<notin> set object_prototype_names) \<Longrightarrow>
         sum_list (map quantity (object_values m)) = length cart"
proof -
  from assms have r: "reduce_cart [] cart = Inr m" by (simp add: mergedCart_def)
  from reduce_cart_pizzaId [OF r] have "map pizzaId (object_values m) = map fst m"
    by (auto simp: object_values_def)
  with reduce_cart_distinct [OF r] show "distinct (map pizzaId (object_values m))" by simp
  assume "\<forall>item\<in>set cart. \<forall>k. item_key item = Inr k \<longrightarrow> k \<notin> set object_prototype_names"
  from reduce_cart_total [OF r this] have "total_quantity m = length cart" by (simp add: total_quantity_def)
  moreover have "total_quantity m = sum_list (map quantity (object_values m))"
    by (simp add: total_quantity_def object_values_def comp_def case_prod_unfold)
  ultimately show "sum_list (map quantity (object_values m)) = length cart" by simp
qed

text \<open>Sizes that differ only in letter case give the same key, and so the same merged line.\<close>

lemma item_key_case_insensitive:
  "toLowerCase s = toLowerCase s' \<Longrightarrow> item_key (cart_line pid s) = item_key (cart_line pid s')"
  by (simp add: item_key_def cart_line_def line_id_def line_size_def lookup_def)

lemma mergedCart_case_example:
  "mergedCart [cart_line (JStr ''pepperoni'') ''Large'', cart_line (JStr ''pepperoni'') ''large'']
     = Inr [(''pepperoni_large'', \<lparr>pizzaId = ''pepperoni_large'', quantity = 2\<rparr>)]"
  by code_simp

text \<open>
  Claim C2, at the input where the code departs from it. The cart has one line, with
  pizza id \<^verbatim>\<open>"_"\<close> and size \<^verbatim>\<open>"proto__"\<close>; its key is \<^verbatim>\<open>__proto__\<close>, which the
  empty accumulator inherits. The merged cart is empty: the quantities sum to 0, not to
  the length 1 of the cart, and the order is committed with no detail row. For carts
  with no such key \<open>mergedCart_lines\<close> gives the sum and the distinct keys.
\<close>

theorem mergedCart_inherited_key:
  "item_key inherited_line = Inr ''__proto__'' \<and>
   mergedCart [inherited_line] = Inr [] \<and>
   fst (createOrder ''2026-11-02'' ''12:00:00'' (request [inherited_line]) example_store)
     = Reply 200 (JObj [(''orderId'', num 1)]) \<and>
   committed (snd (createOrder ''2026-11-02'' ''12:00:00'' (request [inherited_line]) example_store))
     = \<lparr>orders = [order_of 1 ''2026-11-02'' ''12:00:00''], order_details = []\<rparr>"
proof -
  have "item_key inherited_line = Inr ''__proto__''" by code_simp
  moreover have "mergedCart [inherited_line] = Inr []" by code_simp
  moreover have "fst (createOrder ''2026-11-02'' ''12:00:00'' (request [inherited_line]) example_store)
     = Reply 200 (JObj [(''orderId'', num 1)])" by code_simp
  moreover have "committed (snd (createOrder ''2026-11-02'' ''12:00:00'' (request [inherited_line]) example_store))
     = \<lparr>orders = [order_of 1 ''2026-11-02'' ''12:00:00''], order_details = []\<rparr>" by code_simp
  ultimately show ?thesis by simp
qed

theorem mergedCart_inherited_key_witness:
  "\<exists>merged. mergedCart [inherited_line] = Inr merged \<and>
     sum_list (map quantity (object_values merged)) = 0 \<and> length [inherited_line] = 1"
  using mergedCart_inherited_key by (simp add: object_values_def)

section \<open>Daily Pick Selector\<close>

lemma daysSinceEpoch_div: "daysSinceEpoch now = Fin (of_int (now div 86400000))"
proof -
  have "\<lfloor>(of_int now :: rat) / of_int 86400000\<rfloor> = now div 86400000"
    by (rule floor_divide_of_int_eq)
  then show ?thesis by (simp add: daysSinceEpoch_def)
qed

lemma num_rem_nat:
  assumes "0 \<le> a" and "0 < n"
  shows "num_rem (Fin (of_int a)) (Fin (of_nat n)) = Fin (of_int (a mod int n))"
proof -
  from assms have nonneg: "0 \<le> (of_int a :: rat) / of_nat n" by simp
  have "\<lfloor>(of_int a :: rat) / of_int (int n)\<rfloor> = a div int n" by (rule floor_divide_of_int_eq)
  then have fl: "\<lfloor>(of_int a :: rat) / of_nat n\<rfloor> = a div int n" by simp
  have t: "trunc (of_int a / of_nat n) = a div int n"
    unfolding trunc_def using nonneg fl by (simp only: if_True)
  have "(of_int a :: rat) - of_nat n * of_int (a div int n) = of_int (a - int n * (a div int n))"
    by simp
  also have "a - int n * (a div int n) = a mod int n"
    by (simp add: minus_mult_div_eq_mod)
  finally show ?thesis using assms t by simp
qed

lemma pizzaIndex_mod:
  assumes "0 \<le> now" and "rs \<noteq> []"
  shows "pizzaIndex now rs = Fin (of_int ((now div 86400000) mod int (length rs)))"
proof -
  from assms have "0 \<le> now div 86400000" and "0 < length rs" by simp_all
  from num_rem_nat [OF this] show ?thesis by (simp add: pizzaIndex_def daysSinceEpoch_div)
qed

lemma index_array_int:
  "0 \<le> k \<Longrightarrow> nat k < length xs \<Longrightarrow> index_array xs (Fin (of_int k)) = xs ! nat k"
  by (simp add: index_array_def)

lemma pick_mod:
  assumes "0 \<le> now" and "rs \<noteq> []"
  shows "pick now rs = rs ! nat ((now div 86400000) mod int (length rs))"
proof -
  let ?k = "(now div 86400000) mod int (length rs)"
  from assms have "0 \<le> ?k" and "?k < int (length rs)" by simp_all
  then have "nat ?k < length rs" by linarith
  with \<open>0 \<le> ?k\<close> show ?thesis
    by (simp add: pick_def pizzaIndex_mod [OF assms] index_array_int)
qed

lemma sizeObj_store_rows: "\<exists>so. sizeObj acc (map size_json ps) = Inr so"
  by (induction ps arbitrary: acc) (simp_all add: size_json_def lookup_def unary_plus_def)

lemma getPizzaOfTheDay_reply:
  assumes "0 \<le> now" and "pizza_types st \<noteq> []"
    and "length (received st) \<notin> set (faults st)" and "Suc (length (received st)) \<notin> set (faults st)"
  shows "\<exists>sizes. fst (getPizzaOfTheDay now st) =
           (let p = pizza_types st ! nat ((now div 86400000) mod int (length (pizza_types st)))
            in Reply 200 (JObj [(''id'', JStr (t_pizza_type_id p)), (''name'', JStr (t_name p)),
                 (''category'', JStr (t_category p)), (''description'', JStr (t_ingredients p)),
                 (''image'', JStr (''/public/pizzas/'' @ t_pizza_type_id p @ ''.webp'')),
                 (''sizes'', JObj sizes)]))"
proof -
  let ?rs = "map pizza_type_json (pizza_types st)"
  let ?k = "nat ((now div 86400000) mod int (length (pizza_types st)))"
  let ?p = "pizza_types st ! ?k"
  from assms(2) have ne: "?rs \<noteq> []" by simp
  from assms(2) have "0 \<le> (now div 86400000) mod int (length (pizza_types st))"
    and "(now div 86400000) mod int (length (pizza_types st)) < int (length (pizza_types st))"
    by simp_all
  then have k: "?k < length (pizza_types st)" by linarith
  from pick_mod [OF assms(1) ne] k have pk: "pick now ?rs = pizza_type_json ?p" by simp
  let ?ps = "filter (\<lambda>p. sql_eq (JStr (t_pizza_type_id ?p)) (JStr (p_pizza_type_id p))) (pizzas st)"
  from sizeObj_store_rows [of "[]" ?ps] obtain so where so: "sizeObj [] (map size_json ?ps) = Inr so" ..
  have "fst (getPizzaOfTheDay now st) =
          Reply 200 (JObj [(''id'', JStr (t_pizza_type_id ?p)), (''name'', JStr (t_name ?p)),
                 (''category'', JStr (t_category ?p)), (''description'', JStr (t_ingredients ?p)),
                 (''image'', JStr (''/public/pizzas/'' @ t_pizza_type_id ?p @ ''.webp'')),
                 (''sizes'', JObj so)])"
    using assms(3,4) pk so
    by (simp add: getPizzaOfTheDay_def execute_def Let_def rows_only_def pizza_type_json_def
        lookup_def responsePizza_def)
  then show ?thesis by (auto simp: Let_def)
qed

text \<open>
  Claim C6. For a clock reading at or after the epoch and a non-empty catalog of size
  \<open>N\<close>, the index is the day count modulo \<open>N\<close>, where the day count is the number of
  whole days of 86400000 milliseconds since the epoch, and the row picked is the one at
  that index. Two readings within the same UTC day give the same index and the same row,
  and one day later the index is the successor modulo \<open>N\<close>.
\<close>

theorem daily_pick:
  assumes "0 \<le> now" and "rs \<noteq> []"
  shows "pizzaIndex now rs = Fin (of_int ((now div 86400000) mod int (length rs))) \<and>
         pick now rs = rs ! nat ((now div 86400000) mod int (length rs)) \<and>
         (\<forall>now'. 0 \<le> now' \<and> now' div 86400000 = now div 86400000 \<longrightarrow>
                  pizzaIndex now' rs = pizzaIndex now rs \<and> pick now' rs = pick now rs) \<and>
         pizzaIndex (now + 86400000) rs
           = Fin (of_int (((now div 86400000) mod int (length rs) + 1) mod int (length rs)))"
proof -
  have next_day: "(now + 86400000) div 86400000 = now div 86400000 + 1" by simp
  from assms(1) have "0 \<le> now + 86400000" by simp
  from pizzaIndex_mod [OF this assms(2)] next_day
  have "pizzaIndex (now + 86400000) rs
           = Fin (of_int (((now div 86400000) mod int (length rs) + 1) mod int (length rs)))"
    by (simp add: mod_simps)
  moreover have "\<forall>now'. 0 \<le> now' \<and> now' div 86400000 = now div 86400000 \<longrightarrow>
                  pizzaIndex now' rs = pizzaIndex now rs \<and> pick now' rs = pick now rs"
    using pizzaIndex_mod [OF _ assms(2)] pick_mod [OF _ assms(2)] assms(1) by simp
  ultimately show ?thesis
    using pizzaIndex_mod [OF assms] pick_mod [OF assms] by simp
qed

theorem daily_pick_witness:
  "pizzaIndex 1793581200000 (map pizza_type_json (pizza_types example_store)) = Fin 1 \<and>
   pick 1793581200000 (map pizza_type_json (pizza_types example_store))
     = pizza_type_json (pizza_types example_store ! 1) \<and>
   pizzaIndex (1793581200000 + 86400000) (map pizza_type_json (pizza_types example_store)) = Fin 0"
proof -
  let ?rs = "map pizza_type_json (pizza_types example_store)"
  have ne: "?rs \<noteq> []" and l: "length ?rs = 2" by (simp_all add: example_store_def)
  have t: "(0::int) \<le> 1793581200000" by simp
  from daily_pick [OF t ne] l show ?thesis by simp
qed

lemma pizzaIndex_empty: "pizzaIndex now [] = NaN"
  by (simp add: pizzaIndex_def daysSinceEpoch_def)

text \<open>
  Claim C5, as amended. The claim asks for an explicit \<^verbatim>\<open>EmptyCatalog\<close> error. The
  handler has no check of the catalog's size. With an empty catalog the index
  \<^verbatim>\<open>daysSinceEpoch % 0\<close> is \<^verbatim>\<open>NaN\<close>, \<^verbatim>\<open>rows[NaN]\<close> is \<^verbatim>\<open>undefined\<close>, and
  reading \<^verbatim>\<open>pizza.id\<close> throws a \<^verbatim>\<open>TypeError\<close>: the handler's promise is rejected
  after its first statement and no pizza is sent. (When the store rejects that statement
  the rejection is the store's.)
\<close>

theorem getPizzaOfTheDay_empty_catalog:
  assumes "pizza_types st = []"
  shows "pizzaIndex now (map pizza_type_json (pizza_types st)) = NaN \<and>
         pick now (map pizza_type_json (pizza_types st)) = JUndefined \<and>
         getPizzaOfTheDay now st =
           (Threw (if length (received st) \<in> set (faults st) then StoreError else TypeError),
            st\<lparr>received := received st @ [SelectPizzaTypes]\<rparr>)"
proof -
  have i: "pizzaIndex now (map pizza_type_json (pizza_types st)) = NaN"
    using assms by (simp add: pizzaIndex_empty)
  then have p: "pick now (map pizza_type_json (pizza_types st)) = JUndefined"
    by (simp add: pick_def index_array_def)
  have "run SelectPizzaTypes (st\<lparr>received := received st @ [SelectPizzaTypes]\<rparr>)
          = (Inr (rows_only []), st\<lparr>received := received st @ [SelectPizzaTypes]\<rparr>)"
    using assms by simp
  then have "getPizzaOfTheDay now st =
           (Threw (if length (received st) \<in> set (faults st) then StoreError else TypeError),
            st\<lparr>received := received st @ [SelectPizzaTypes]\<rparr>)"
    using assms by (simp add: getPizzaOfTheDay_def execute_def Let_def rows_only_def pick_def
        pizzaIndex_empty index_array_def)
  with i p show ?thesis by simp
qed

text \<open>On the empty catalog the outcome is the \<^verbatim>\<open>TypeError\<close>, not an error made by the code.\<close>

theorem getPizzaOfTheDay_empty_catalog_counterexample:
  "pizzaIndex 1793581200000 [] = NaN \<and>
   fst (getPizzaOfTheDay 1793581200000 empty_menu) = Threw TypeError \<and>
   fst (getPizzaOfTheDay 1793581200000 empty_menu) \<noteq> Threw (Error ''EmptyCatalog'')"
proof -
  have "fst (getPizzaOfTheDay 1793581200000 empty_menu) = Threw TypeError"
    by code_simp
  then show ?thesis by (simp add: pizzaIndex_empty)
qed

theorem getPizzaOfTheDay_empty_catalog_witness:
  "pizza_types empty_menu = [] \<and>
   getPizzaOfTheDay 1793581200000 empty_menu
     = (Threw TypeError, empty_menu\<lparr>received := [SelectPizzaTypes]\<rparr>)"
proof -
  have e: "pizza_types empty_menu = []" by (simp add: empty_menu_def)
  from getPizzaOfTheDay_empty_catalog [OF e, of 1793581200000] e show ?thesis
    by (simp add: empty_menu_def example_store_def)
qed

section \<open>Order Reader\<close>






















text \<open>A reply with status 200 from either handler carries such a body.\<close>

lemma getPastOrder_reply_body:
  "getPastOrder oid st = (Reply 200 body, st') \<Longrightarrow> \<exists>hs rs. order_body hs rs = Inr body"
  by (auto simp: getPastOrder_def error_body_def split: prod.splits sum.splits if_splits)

lemma getOrders_reply_body:
  "getOrders oid st = (Reply 200 body, st') \<Longrightarrow> \<exists>hs rs. order_body hs rs = Inr body"
  by (auto simp: getOrders_def split: prod.splits sum.splits)

text \<open>
  Without a matching header \<^verbatim>\<open>getPastOrder\<close> replies 404. \<^verbatim>\<open>getOrders\<close> has no such
  check: with no matching header and no matching detail row it replies 200 with a total
  of 0 and no items.
\<close>

lemma getPastOrder_not_found:
  assumes "\<forall>r\<in>set (orders (current st)). \<not> sql_eq oid (num (of_nat (o_order_id r)))"
    and "length (received st) \<notin> set (faults st)"
  shows "fst (getPastOrder oid st) = Reply 404 (error_body ''Order not found'')"
proof -
  have c: "current (st\<lparr>received := received st @ [SelectOrder oid]\<rparr>) = current st"
    by (simp add: current_def split: option.splits)
  from assms(1) have "filter (\<lambda>r. sql_eq oid (num (of_nat (o_order_id r)))) (orders (current st)) = []"
    by (simp add: filter_empty_conv)
  with assms(2) c show ?thesis
    by (simp add: getPastOrder_def execute_def Let_def rows_only_def)
qed

lemma order_items_none:
  assumes "\<forall>d\<in>set (order_details (current st)). \<not> sql_eq oid (d_order_id d)"
  shows "order_items st oid = []"
proof -
  have "concat (map (\<lambda>d. if sql_eq oid (d_order_id d) then f d else []) ds) = []"
    if "\<forall>d\<in>set ds. \<not> sql_eq oid (d_order_id d)" for ds and f :: "detail_row \<Rightarrow> jsval list"
    using that by (induction ds) auto
  from this [OF assms] show ?thesis by (simp add: order_items_def)
qed

lemma getOrders_not_found:
  assumes "\<forall>r\<in>set (orders (current st)). \<not> sql_eq oid (num (of_nat (o_order_id r)))"
    and "\<forall>d\<in>set (order_details (current st)). \<not> sql_eq oid (d_order_id d)"
    and "length (received st) \<notin> set (faults st)" and "Suc (length (received st)) \<notin> set (faults st)"
  shows "fst (getOrders oid st)
     = Reply 200 (JObj [(''order'', JObj [(''total'', num 0)]), (''orderItems'', JArr [])])"
proof -
  let ?s1 = "st\<lparr>received := received st @ [SelectOrder oid]\<rparr>"
  let ?s2 = "?s1\<lparr>received := received ?s1 @ [SelectOrderItems oid]\<rparr>"
  have c: "current ?s1 = current st" "current ?s2 = current st"
    by (simp_all add: current_def split: option.splits)
  from assms(1) have h: "filter (\<lambda>r. sql_eq oid (num (of_nat (o_order_id r)))) (orders (current st)) = []"
    by (simp add: filter_empty_conv)
  from assms(2) c have i: "order_items ?s2 oid = []"
    by (intro order_items_none) simp
  from assms(3,4) c h i show ?thesis
    by (simp add: getOrders_def execute_def Let_def rows_only_def order_body_def formatOrderItems_def
        orderTotal_def index_array_def object_assign_def)
qed

text \<open>
  Claim C7, at the input where the code departs from it. The store holds no order, so
  the id 999 identifies no header. \<^verbatim>\<open>GET /api/past-order/999\<close> replies 404, as the
  claim says; \<^verbatim>\<open>GET /api/order?id=999\<close> replies 200 with an empty payload.
\<close>

theorem getOrders_unknown_id:
  "fst (getOrders (JStr ''999'') example_store)
     = Reply 200 (JObj [(''order'', JObj [(''total'', num 0)]), (''orderItems'', JArr [])]) \<and>
   fst (getPastOrder (JStr ''999'') example_store) = Reply 404 (error_body ''Order not found'')"
proof -
  have "fst (getOrders (JStr ''999'') example_store)
     = Reply 200 (JObj [(''order'', JObj [(''total'', num 0)]), (''orderItems'', JArr [])])"
    by code_simp
  moreover have "fst (getPastOrder (JStr ''999'') example_store) = Reply 404 (error_body ''Order not found'')"
    by code_simp
  ultimately show ?thesis by simp
qed

theorem getOrders_unknown_id_witness:
  "orders (committed example_store) = [] \<and>
   (\<exists>body. fst (getOrders (JStr ''999'') example_store) = Reply 200 body) \<and>
   fst (getOrders (JStr ''999'') example_store) \<noteq> Reply 404 (error_body ''Order not found'')"
  using getOrders_unknown_id by (simp add: example_store_def)

section \<open>Past orders\<close>

text \<open>
  The page defaults to 1 when the parameter is absent, unparsable or 0; the offset is
  \<open>(page - 1) * 20\<close>; and no reply holds more than 10 rows.
\<close>

lemma page_of_default:
  "page_of JUndefined = Inr (Fin 1)" "page_of (JStr ''abc'') = Inr (Fin 1)"
  "page_of (JStr ''0'') = Inr (Fin 1)" "page_of (JStr ''3'') = Inr (Fin 3)"
  by code_simp+

lemma offset_of_page: "offset_of (Fin p) = Fin ((p - 1) * 20)"
  by (simp add: offset_of_def num_sub_def num_mul_def limit_def)

lemma getPastOrders_at_most_ten:
  "getPastOrders q st = (Reply 200 (JArr rs), st') \<Longrightarrow> length rs \<le> 10"
  by (auto simp: getPastOrders_def execute_def Let_def rows_only_def past_orders_def error_body_def
      split: sum.splits prod.splits if_splits jsnum.splits)

text \<open>
  Claim C9, at the input where the code departs from it. The store holds the orders 1 to
  25. Page 1 is the ten orders 25 down to 16, not twenty; page 2 starts at offset 20 and
  is the orders 5 down to 1. The orders 15 down to 6 are on no page.
\<close>

theorem getPastOrders_page_size:
  "fst (getPastOrders (JStr ''1'') (numbered_orders 25))
     = Reply 200 (JArr (map (\<lambda>i. order_json (order_of i ''2026-11-02'' ''12:00:00''))
                            [25, 24, 23, 22, 21, 20, 19, 18, 17, 16])) \<and>
   fst (getPastOrders (JStr ''2'') (numbered_orders 25))
     = Reply 200 (JArr (map (\<lambda>i. order_json (order_of i ''2026-11-02'' ''12:00:00''))
                            [5, 4, 3, 2, 1]))"
proof -
  have "fst (getPastOrders (JStr ''1'') (numbered_orders 25))
     = Reply 200 (JArr (map (\<lambda>i. order_json (order_of i ''2026-11-02'' ''12:00:00''))
                            [25, 24, 23, 22, 21, 20, 19, 18, 17, 16]))"
    by code_simp
  moreover have "fst (getPastOrders (JStr ''2'') (numbered_orders 25))
     = Reply 200 (JArr (map (\<lambda>i. order_json (order_of i ''2026-11-02'' ''12:00:00''))
                            [5, 4, 3, 2, 1]))"
    by code_simp
  ultimately show ?thesis by simp
qed

theorem getPastOrders_page_size_witness:
  "length (orders (committed (numbered_orders 25))) = 25 \<and>
   (\<exists>rs. fst (getPastOrders (JStr ''1'') (numbered_orders 25)) = Reply 200 (JArr rs) \<and> length rs = 10)"
  using getPastOrders_page_size by (simp add: numbered_orders_def)

end
